theory Spec2Isabelle
  imports Complex_Main "HOL-Library.Char_ord" "HOL-Library.List_Lexorder"
begin

section \<open>Conventions\<close>

text \<open>
  The repository is Python. Floats are modelled as \<^typ>\<open>real\<close>, Python integers as
  \<^typ>\<open>int\<close> or \<^typ>\<open>nat\<close> (counts and indices), a \<open>str\<close> as a \<^typ>\<open>string\<close> whose
  characters are code points (every literal of the modelled source lies below U+0100),
  a \<open>dict\<close> as a map, and an exception as the \<open>Inl\<close> branch of a sum.
\<close>

abbreviation (input) E_acute :: char where "E_acute \<equiv> CHR 0xC9"
abbreviation (input) e_acute :: char where "e_acute \<equiv> CHR 0xE9"
abbreviation (input) e_grave :: char where "e_grave \<equiv> CHR 0xE8"
abbreviation (input) e_circ :: char where "e_circ \<equiv> CHR 0xEA"
abbreviation (input) a_grave :: char where "a_grave \<equiv> CHR 0xE0"
abbreviation (input) o_circ :: char where "o_circ \<equiv> CHR 0xF4"
abbreviation (input) apostrophe :: char where "apostrophe \<equiv> CHR 0x27"
abbreviation (input) newline :: char where "newline \<equiv> CHR 0x0A"

datatype py_error =
  AttributeError | TypeError | IndexError | KeyError | ValueError | ExternalFailure

section \<open>drought\_calculator.py: risk scoring\<close>

text \<open>
  The level tokens of the source, with the accents dropped in the constructor names:
  the five ordinal levels from \<open>Tres Faible\<close> to \<open>Tres Eleve\<close>, and the token
  \<open>Indetermine\<close> of the default assessment.
\<close>

datatype risk_level = TresFaible | Faible | Modere | Eleve | TresEleve | Indetermine

text \<open>
  The indicator dictionary: the entry \<open>'spi'\<close> is itself a dictionary from index to
  value, every other entry is a number. A key can be absent, which is what the
  \<open>.get(key, default)\<close> calls of the scorer provide for.
\<close>

record indicators =
  spi :: "nat \<rightharpoonup> real"
  scalars :: "string \<rightharpoonup> real"

definition ind_get :: "indicators \<Rightarrow> string \<Rightarrow> real \<Rightarrow> real" where
  "ind_get ind k d = (case scalars ind k of None \<Rightarrow> d | Some v \<Rightarrow> v)"

record risk_assessment =
  risk_level :: risk_level
  risk_score :: int
  risk_color :: string
  factors :: "string list"
  spi_value :: real
  precipitation_deficit :: real
  avg_temperature :: real
  recommendations :: "string list"

definition generate_recommendations :: "risk_level \<Rightarrow> indicators \<Rightarrow> string list" where
  "generate_recommendations lvl ind =
    (if lvl = Eleve \<or> lvl = TresEleve then
       [''Activation des plans d'' @ [apostrophe] @ ''urgence s'' @ [e_acute] @ ''cheresse'',
        ''Restrictions d'' @ [apostrophe] @ ''eau obligatoires'',
        ''Mise en place de syst'' @ [e_grave] @ ''mes d'' @ [apostrophe] @ ''irrigation d''
          @ [apostrophe] @ ''urgence'',
        ''Surveillance renforc'' @ [e_acute] @ ''e des ressources en eau'',
        ''Pr'' @ [e_acute] @ ''paration '' @ [a_grave] @ '' la distribution d'' @ [apostrophe]
          @ ''aide humanitaire'']
     else if lvl = Modere then
       [''Sensibilisation des agriculteurs aux '' @ [e_acute] @ ''conomies d'' @ [apostrophe]
          @ ''eau'',
        ''Promotion des pratiques agricoles r'' @ [e_acute] @ ''silientes'',
        ''Surveillance accrue des indicateurs climatiques'',
        ''Planification des mesures de restriction volontaire'']
     else
       [''Surveillance de routine des param'' @ [e_grave] @ ''tres climatiques'',
        ''Maintien des bonnes pratiques de gestion de l'' @ [apostrophe] @ ''eau'',
        ''Planification '' @ [a_grave] @ '' long terme de l'' @ [apostrophe]
          @ ''adaptation climatique''])
    @ (if ind_get ind ''soil_moisture_mean'' 100 < 30
       then [''Irrigation de sauvegarde recommand'' @ [e_acute]
               @ ''e pour les cultures sensibles'']
       else [])
    @ (if ind_get ind ''consecutive_dry_days'' 0 > 15
       then [[E_acute] @ ''valuation des besoins en fourrage pour le b'' @ [e_acute] @ ''tail'']
       else [])
    @ (if ind_get ind ''heat_stress'' 0 > 40
       then [''Mise en place de zones d'' @ [apostrophe] @ ''ombre et d'' @ [apostrophe]
               @ ''abreuvement pour le b'' @ [e_acute] @ ''tail'']
       else [])"

text \<open>
  The additive phase of \<open>assess_drought_risk\<close>, one definition per block of the source;
  each returns the points it adds and the reason it records.
\<close>

definition spi_points :: "real \<Rightarrow> int \<times> string list" where
  "spi_points spi_mean =
    (if spi_mean \<le> - 2.0 then
       (40, [''SPI tr'' @ [e_grave] @ ''s bas (s'' @ [e_acute] @ ''cheresse extr'' @ [e_circ]
               @ ''me)''])
     else if spi_mean \<le> - 1.5 then
       (30, [''SPI bas (s'' @ [e_acute] @ ''cheresse s'' @ [e_acute] @ ''v'' @ [e_grave]
               @ ''re)''])
     else if spi_mean \<le> - 1.0 then
       (20, [''SPI mod'' @ [e_acute] @ ''r'' @ [e_acute] @ ''ment bas''])
     else if spi_mean \<le> - 0.5 then
       (10, [''SPI l'' @ [e_acute] @ ''g'' @ [e_grave] @ ''rement bas''])
     else (0, []))"

definition deficit_points :: "real \<Rightarrow> int \<times> string list" where
  "deficit_points deficit =
    (if deficit > 60 then
       (30, [''D'' @ [e_acute] @ ''ficit pluviom'' @ [e_acute] @ ''trique extr'' @ [e_circ]
               @ ''me''])
     else if deficit > 40 then
       (20, [''D'' @ [e_acute] @ ''ficit pluviom'' @ [e_acute] @ ''trique s'' @ [e_acute]
               @ ''v'' @ [e_grave] @ ''re''])
     else if deficit > 20 then
       (10, [''D'' @ [e_acute] @ ''ficit pluviom'' @ [e_acute] @ ''trique mod'' @ [e_acute]
               @ ''r'' @ [e_acute]])
     else (0, []))"

definition dry_days_points :: "real \<Rightarrow> int \<times> string list" where
  "dry_days_points dry_days =
    (if dry_days > 20 then (20, [''Longue p'' @ [e_acute] @ ''riode sans pluie''])
     else if dry_days > 10 then
       (10, [''P'' @ [e_acute] @ ''riode s'' @ [e_grave] @ ''che prolong'' @ [e_acute] @ ''e''])
     else (0, []))"

definition heat_points :: "real \<Rightarrow> int \<times> string list" where
  "heat_points heat = (if heat > 50 then (10, [''Fort stress thermique'']) else (0, []))"

definition soil_points :: "real \<Rightarrow> int \<times> string list" where
  "soil_points soil_moisture =
    (if soil_moisture < 20 then
       (15, [''Humidit'' @ [e_acute] @ '' du sol tr'' @ [e_grave] @ ''s critique''])
     else if soil_moisture < 30 then
       (10, [''Humidit'' @ [e_acute] @ '' du sol faible''])
     else (0, []))"

definition classify :: "int \<Rightarrow> risk_level \<times> string" where
  "classify score =
    (if score \<ge> 70 then (TresEleve, ''red'')
     else if score \<ge> 50 then (Eleve, ''orange'')
     else if score \<ge> 30 then (Modere, ''yellow'')
     else if score \<ge> 15 then (Faible, ''blue'')
     else (TresFaible, ''green''))"

text \<open>
  \<open>assess_drought_risk\<close>. Its \<open>try\<close> block raises nothing on a dictionary of numbers,
  so the \<open>except\<close> branch (the default assessment) is not reached from this input type;
  \<open>get_default_risk_assessment\<close> is given for reference.
\<close>

definition assess_drought_risk :: "indicators \<Rightarrow> risk_assessment" where
  "assess_drought_risk ind =
    (let spi_mean = ind_get ind ''spi_mean'' 0;
         s1 = spi_points spi_mean;
         deficit = ind_get ind ''precipitation_deficit'' 0;
         s2 = deficit_points deficit;
         s3 = dry_days_points (ind_get ind ''consecutive_dry_days'' 0);
         s4 = heat_points (ind_get ind ''heat_stress'' 0);
         s5 = soil_points (ind_get ind ''soil_moisture_mean'' 50);
         score = fst s1 + fst s2 + fst s3 + fst s4 + fst s5;
         lvl = classify score
     in \<lparr> risk_level = fst lvl,
          risk_score = score,
          risk_color = snd lvl,
          factors = snd s1 @ snd s2 @ snd s3 @ snd s4 @ snd s5,
          spi_value = spi_mean,
          precipitation_deficit = deficit,
          avg_temperature = ind_get ind ''avg_temperature'' 0,
          recommendations = generate_recommendations (fst lvl) ind \<rparr>)"

definition get_default_risk_assessment :: risk_assessment where
  "get_default_risk_assessment =
    \<lparr> risk_level = Indetermine,
      risk_score = 0,
      risk_color = ''gray'',
      factors = [''Donn'' @ [e_acute] @ ''es insuffisantes pour l'' @ [apostrophe] @ ''analyse''],
      spi_value = 0,
      precipitation_deficit = 0,
      avg_temperature = 25,
      recommendations =
        [''Collecter plus de donn'' @ [e_acute] @ ''es pour une analyse fiable''] \<rparr>"

text \<open>The indicator set of the end-to-end example: a dictionary with five entries.\<close>

definition example_indicators :: indicators where
  "example_indicators =
    \<lparr> spi = Map.empty,
      scalars = [''spi_mean'' \<mapsto> - 2.1, ''precipitation_deficit'' \<mapsto> 65,
                 ''consecutive_dry_days'' \<mapsto> 25, ''heat_stress'' \<mapsto> 55,
                 ''soil_moisture_mean'' \<mapsto> 15] \<rparr>"

section \<open>drought\_calculator.py: indicators\<close>

text \<open>
  \<open>np.mean\<close> and \<open>np.std\<close> (the population standard deviation) on a sequence of
  numbers. On an empty sequence numpy returns \<open>nan\<close>; no caller below uses that value.
\<close>

definition np_mean :: "real list \<Rightarrow> real" where
  "np_mean xs = sum_list xs / real (length xs)"

definition np_std :: "real list \<Rightarrow> real" where
  "np_std xs = sqrt (np_mean (map (\<lambda>x. (x - np_mean xs)\<^sup>2) xs))"

text \<open>
  The three scipy calls of the long path (\<open>stats.gamma.fit\<close>, \<open>stats.gamma.cdf\<close>,
  \<open>stats.norm.ppf\<close>) are outside the repository. They are a parameter: a function from
  the clamped window and the window total to what the \<open>try\<close> block observes, namely an
  exception, a non-finite float (\<open>inf\<close> or \<open>nan\<close>), or a finite value.
\<close>

datatype fit_outcome = Raised | NonFinite | Finite real

type_synonym gamma_fit = "real list \<Rightarrow> real \<Rightarrow> fit_outcome"

definition enumerate0 :: "'a list \<Rightarrow> (nat \<times> 'a) list" where
  "enumerate0 xs = zip [0..<length xs] xs"

text \<open>Short path of \<open>calculate_spi\<close> (fewer than 7 points): a z-score per point.\<close>

definition spi_simple :: "real list \<Rightarrow> (nat \<rightharpoonup> real)" where
  "spi_simple precipitation =
    (let mean_precip = np_mean precipitation;
         std_precip = (if length precipitation > 1 then np_std precipitation else 1)
     in foldl (\<lambda>spi_values (i, precip).
                 spi_values(i \<mapsto> (if std_precip > 0 then (precip - mean_precip) / std_precip
                                   else 0)))
          Map.empty (enumerate0 precipitation))"

text \<open>
  Long path: the trailing window of index \<open>i\<close>, \<open>precipitation[:i+1]\<close> while
  \<open>i < period - 1\<close> and \<open>precipitation[i-period+1:i+1]\<close> afterwards.
\<close>

definition spi_window :: "nat \<Rightarrow> real list \<Rightarrow> nat \<Rightarrow> real list" where
  "spi_window period precipitation i =
    (if int i < int period - 1 then take (i + 1) precipitation
     else drop (i + 1 - period) (take (i + 1) precipitation))"

definition spi_of_window :: "gamma_fit \<Rightarrow> real list \<Rightarrow> real" where
  "spi_of_window fit window =
    (let total_precip = sum_list window
     in case fit (map (\<lambda>x. max 0.1 x) window) total_precip of
          Finite v \<Rightarrow> v
        | NonFinite \<Rightarrow> 0
        | Raised \<Rightarrow>
            (let mean_window = np_mean window;
                 std_window = (if length window > 1 then np_std window else 1)
             in if std_window > 0 then (total_precip - mean_window) / std_window else 0))"

definition spi_long_step ::
  "gamma_fit \<Rightarrow> nat \<Rightarrow> real list \<Rightarrow> (nat \<rightharpoonup> real) \<Rightarrow> nat \<Rightarrow> (nat \<rightharpoonup> real)" where
  "spi_long_step fit period precipitation spi_values i =
    (let window = spi_window period precipitation i
     in if length window \<ge> 7 then spi_values(i \<mapsto> spi_of_window fit window)
        else spi_values)"

text \<open>
  \<open>calculate_spi(precipitation, dates, period=30)\<close>; \<open>dates\<close> is not read. On a sequence
  of numbers nothing in the outer \<open>try\<close> raises (the scipy calls have their own bare
  \<open>except\<close>), so the outer handler, which would fill every index with 0, is not reached.
\<close>

definition calculate_spi :: "gamma_fit \<Rightarrow> real list \<Rightarrow> nat \<Rightarrow> (nat \<rightharpoonup> real)" where
  "calculate_spi fit precipitation period =
    (if length precipitation < 7 then spi_simple precipitation
     else foldl (spi_long_step fit period precipitation) Map.empty
            [0..<length precipitation])"

definition calculate_normal_precipitation :: "nat \<Rightarrow> real" where
  "calculate_normal_precipitation days = 3.0 * real days"

definition calculate_consecutive_dry_days :: "real list \<Rightarrow> real \<Rightarrow> nat" where
  "calculate_consecutive_dry_days precipitation threshold =
    (if length precipitation = 0 then 0
     else fst (foldl (\<lambda>(max_dry_days, current_dry_days) precip.
                        if precip < threshold
                        then (max max_dry_days (current_dry_days + 1), current_dry_days + 1)
                        else (max_dry_days, 0))
                 (0, 0) precipitation))"

definition calculate_heat_stress :: "real list \<Rightarrow> real \<Rightarrow> real" where
  "calculate_heat_stress temperatures threshold =
    (if length temperatures = 0 then 0
     else real (length (filter (\<lambda>temp. temp > threshold) temperatures))
          / real (length temperatures) * 100)"

record climate_data =
  dates :: "int list"
  temperature_2m_max :: "real list"
  temperature_2m_min :: "real list"
  temperature_2m_mean :: "real list"
  precipitation :: "real list"
  soil_moisture :: "real list"
  et0 :: "real list"
  relative_humidity :: "real list"

definition get_default_indicators :: indicators where
  "get_default_indicators =
    \<lparr> spi = [0 \<mapsto> 0],
      scalars = [''spi_mean'' \<mapsto> 0, ''precipitation_deficit'' \<mapsto> 0,
                 ''consecutive_dry_days'' \<mapsto> 0, ''avg_temperature'' \<mapsto> 25,
                 ''max_temperature'' \<mapsto> 30, ''heat_stress'' \<mapsto> 0,
                 ''soil_moisture_mean'' \<mapsto> 50, ''soil_moisture_min'' \<mapsto> 30,
                 ''et0_mean'' \<mapsto> 4, ''water_balance'' \<mapsto> 0, ''humidity_mean'' \<mapsto> 65] \<rparr>"

text \<open>The values of the SPI dictionary, whose keys are indices below \<open>n\<close>.\<close>

definition spi_values_list :: "(nat \<rightharpoonup> real) \<Rightarrow> nat \<Rightarrow> real list" where
  "spi_values_list m n = map (\<lambda>i. the (m i)) (filter (\<lambda>i. m i \<noteq> None) [0..<n])"

text \<open>
  \<open>calculate_drought_indicators\<close>; \<open>None\<close> stands for a missing \<open>climate_data\<close>.
  \<open>np.max\<close> and \<open>np.min\<close> are read on non-empty sequences only.
\<close>

definition calculate_drought_indicators :: "gamma_fit \<Rightarrow> climate_data option \<Rightarrow> indicators" where
  "calculate_drought_indicators fit cd_opt =
    (case cd_opt of
       None \<Rightarrow> get_default_indicators
     | Some cd \<Rightarrow>
        if length (dates cd) = 0 then get_default_indicators
        else
          (let p = precipitation cd;
               spi_tab = calculate_spi fit p 30;
               spi_vals = spi_values_list spi_tab (length p);
               spi_m = (if spi_vals \<noteq> [] then np_mean spi_vals else 0);
               avg_precipitation = (if length p > 0 then np_mean p else 0);
               normal_precipitation = calculate_normal_precipitation (length p);
               deficit = (if normal_precipitation > 0
                          then max 0 ((1 - avg_precipitation / normal_precipitation) * 100)
                          else 0);
               tmean = temperature_2m_mean cd;
               tmax = temperature_2m_max cd;
               sm = soil_moisture cd;
               e = et0 cd;
               rh = relative_humidity cd
           in \<lparr> spi = spi_tab,
                scalars =
                  [''spi_mean'' \<mapsto> spi_m,
                   ''precipitation_deficit'' \<mapsto> deficit,
                   ''consecutive_dry_days'' \<mapsto> real (calculate_consecutive_dry_days p 0.1),
                   ''avg_temperature'' \<mapsto> (if length tmean > 0 then np_mean tmean else 25),
                   ''max_temperature'' \<mapsto> (if length tmax > 0 then Max (set tmax) else 30),
                   ''heat_stress'' \<mapsto> calculate_heat_stress tmax 35,
                   ''soil_moisture_mean'' \<mapsto> (if length sm > 0 then np_mean sm else 50),
                   ''soil_moisture_min'' \<mapsto> (if length sm > 0 then Min (set sm) else 30),
                   ''et0_mean'' \<mapsto> (if length e > 0 then np_mean e else 4),
                   ''water_balance'' \<mapsto> (if length p > 0 then sum_list p - sum_list e else 0),
                   ''humidity_mean'' \<mapsto> (if length rh > 0 then np_mean rh else 65)] \<rparr>))"

section \<open>drought\_monitoring/app.py: period segmentation\<close>

definition assess_drought_intensity :: "nat \<Rightarrow> real \<Rightarrow> string" where
  "assess_drought_intensity duration deficit =
    (let intensity_score = real duration * deficit
     in if intensity_score > 10 then ''extr'' @ [e_circ] @ ''me''
        else if intensity_score > 5 then ''s'' @ [e_acute] @ ''v'' @ [e_grave] @ ''re''
        else if intensity_score > 2 then ''mod'' @ [e_acute] @ ''r'' @ [e_acute] @ ''e''
        else ''faible'')"

text \<open>
  \<open>current_period\<close> is a dictionary with four entries while the period is open; closing
  it adds five more. Dates are day numbers, \<open>date - timedelta(days=1)\<close> is \<open>date - 1\<close>.
\<close>

record open_period =
  start_date :: int
  start_index :: nat
  dry_days :: nat
  total_precip :: real

record drought_period = open_period +
  end_date :: int
  end_index :: int
  avg_precip :: real
  avg_deficit :: real
  intensity :: string

definition close_period :: "open_period \<Rightarrow> int \<Rightarrow> int \<Rightarrow> real \<Rightarrow> drought_period" where
  "close_period cp ed ei dry_threshold =
    (let avg = total_precip cp / real (dry_days cp);
         deficit = dry_threshold - avg
     in \<lparr> start_date = start_date cp, start_index = start_index cp,
          dry_days = dry_days cp, total_precip = total_precip cp,
          end_date = ed, end_index = ei, avg_precip = avg, avg_deficit = deficit,
          intensity = assess_drought_intensity (dry_days cp) deficit \<rparr>)"

type_synonym seg_state = "drought_period list \<times> open_period option"

text \<open>One iteration of the loop over \<open>enumerate(zip(dates, precipitation))\<close>.\<close>

definition seg_step :: "real \<Rightarrow> seg_state \<Rightarrow> nat \<times> int \<times> real \<Rightarrow> seg_state" where
  "seg_step dry_threshold st x =
    (case st of (drought_periods, current_period) \<Rightarrow>
     case x of (i, date, precip) \<Rightarrow>
       (let is_dry_day = precip < dry_threshold
        in case current_period of
             None \<Rightarrow>
               if is_dry_day
               then (drought_periods,
                     Some \<lparr> start_date = date, start_index = i, dry_days = 1,
                            total_precip = precip \<rparr>)
               else (drought_periods, None)
           | Some cp \<Rightarrow>
               if is_dry_day
               then (drought_periods,
                     Some (cp\<lparr> dry_days := dry_days cp + 1,
                               total_precip := total_precip cp + precip \<rparr>))
               else ((if dry_days cp \<ge> 3
                      then drought_periods @ [close_period cp (date - 1) (int i - 1) dry_threshold]
                      else drought_periods),
                     None)))"

text \<open>
  \<open>detect_drought_periods\<close>: the loop, then the period still open at the end of the
  data. \<open>dates[-1]\<close> is read only when a period is open, hence when \<open>dates\<close> is not empty.
\<close>

definition detect_drought_periods :: "climate_data \<Rightarrow> real \<Rightarrow> drought_period list" where
  "detect_drought_periods cd dry_threshold =
    (case foldl (seg_step dry_threshold) ([], None)
            (enumerate0 (zip (dates cd) (precipitation cd))) of
       (drought_periods, current_period) \<Rightarrow>
         (case current_period of
            None \<Rightarrow> drought_periods
          | Some cp \<Rightarrow>
              if dry_days cp \<ge> 3
              then drought_periods
                   @ [close_period cp (last (dates cd)) (int (length (dates cd)) - 1)
                        dry_threshold]
              else drought_periods))"

text \<open>A climate record that carries only dates and precipitation.\<close>

definition series :: "int list \<Rightarrow> real list \<Rightarrow> climate_data" where
  "series ds ps =
    \<lparr> dates = ds, temperature_2m_max = [], temperature_2m_min = [],
      temperature_2m_mean = [], precipitation = ps, soil_moisture = [], et0 = [],
      relative_humidity = [] \<rparr>"

section \<open>Python string operations\<close>

text \<open>\<open>str.split(sep)\<close> for a one-character separator: always at least one piece.\<close>

fun split_char :: "char \<Rightarrow> string \<Rightarrow> string list" where
  "split_char sep [] = [[]]"
| "split_char sep (c # cs) =
     (if c = sep then [] # split_char sep cs
      else (case split_char sep cs of
              piece # pieces \<Rightarrow> (c # piece) # pieces
            | [] \<Rightarrow> [[c]]))"

definition startswith :: "string \<Rightarrow> string \<Rightarrow> bool" where
  "startswith s pre \<longleftrightarrow> take (length pre) s = pre"

text \<open>
  \<open>str.replace(old, new)\<close> for a non-empty \<open>old\<close>: the occurrences are replaced from
  left to right without overlap.
\<close>

fun replace_str :: "string \<Rightarrow> string \<Rightarrow> string \<Rightarrow> string" where
  "replace_str old new [] = []"
| "replace_str old new (c # cs) =
     (if startswith (c # cs) old
      then new @ replace_str old new (drop (length old - 1) cs)
      else c # replace_str old new cs)"

text \<open>\<open>str.isspace\<close> on the code points below U+0100, and \<open>str.strip()\<close>.\<close>

definition is_space :: "char \<Rightarrow> bool" where
  "is_space c \<longleftrightarrow>
     (let n = (of_char c :: nat)
      in (9 \<le> n \<and> n \<le> 13) \<or> (28 \<le> n \<and> n \<le> 32) \<or> n = 133 \<or> n = 160)"

definition strip :: "string \<Rightarrow> string" where
  "strip s = rev (dropWhile is_space (rev (dropWhile is_space s)))"

fun join :: "string \<Rightarrow> string list \<Rightarrow> string" where
  "join sep [] = []"
| "join sep [x] = x"
| "join sep (x # y # ys) = x @ sep @ join sep (y # ys)"

definition digit_char :: "nat \<Rightarrow> char" where
  "digit_char d = ''0123456789'' ! d"

fun show_nat :: "nat \<Rightarrow> string" where
  "show_nat n = (if n < 10 then [digit_char n]
                 else show_nat (n div 10) @ [digit_char (n mod 10)])"

declare show_nat.simps [simp del]

text \<open>
  The format \<open>{x:.1f}\<close> on a non-negative number: the nearest tenth. Python rounds the
  binary float half-to-even; the averages formatted below are sums of multiples of 5
  divided by 1, 2 or 3, where no tie arises.
\<close>

definition format_1f :: "real \<Rightarrow> string" where
  "format_1f x =
    (let t = nat (round (x * 10))
     in show_nat (t div 10) @ ''.'' @ show_nat (t mod 10))"

section \<open>alert\_generator.py\<close>

record locality =
  localite :: string
  latitude :: real
  longitude :: real
  region :: string
  zone :: string

record sample_indicator =
  si_localite :: string
  si_risk_level :: risk_level
  si_risk_score :: int
  si_spi :: real
  si_deficit :: real
  si_dry_days :: real

record alert_template =
  t_titre :: string
  t_evaluation :: string
  t_zones_prioritaires :: "string list"
  t_actions :: "string list"
  t_periode :: string
  t_urgence :: string

text \<open>
  The dictionary \<open>risk_templates\<close> has the keys \<open>Tres Eleve\<close>, \<open>Eleve\<close> and
  \<open>Modere\<close>; \<open>.get(risk_level, risk_templates['Modere'])\<close> gives the last one for
  every other level.
\<close>

definition risk_templates_get :: "string \<Rightarrow> string \<Rightarrow> real \<Rightarrow> risk_level \<Rightarrow> alert_template" where
  "risk_templates_get group_name group_type avg_score lvl =
    (case lvl of
       TresEleve \<Rightarrow>
         \<lparr> t_titre = ''CRISE - '' @ group_type @ '' '' @ group_name,
           t_evaluation = ''Situation de crise avec un risque moyen de '' @ format_1f avg_score
             @ ''%. Intervention coordonn'' @ [e_acute] @ ''e requise.'',
           t_zones_prioritaires =
             [''Toute la zone affect'' @ [e_acute] @ ''e'',
              ''Secteurs agricoles prioritaires'',
              ''Zones de concentration population''],
           t_actions =
             [''Plan d'' @ [apostrophe] @ ''urgence r'' @ [e_acute] @ ''gional activ''
                @ [e_acute],
              ''Coordination inter-services renforc'' @ [e_acute] @ ''e'',
              ''Ressources mutualis'' @ [e_acute] @ ''es'',
              ''Communication unifi'' @ [e_acute] @ ''e''],
           t_periode = ''Imm'' @ [e_acute] @ ''diate - 30 jours'',
           t_urgence = ''CRITIQUE'' \<rparr>
     | Eleve \<Rightarrow>
         \<lparr> t_titre = ''ALERTE - '' @ group_type @ '' '' @ group_name,
           t_evaluation = ''Risque '' @ [e_acute] @ ''lev'' @ [e_acute] @ '' (''
             @ format_1f avg_score
             @ ''%) n'' @ [e_acute] @ ''cessitant une action coordonn'' @ [e_acute] @ ''e.'',
           t_zones_prioritaires =
             [''Sous-r'' @ [e_acute] @ ''gions les plus affect'' @ [e_acute] @ ''es'',
              ''Bassins versants critiques''],
           t_actions =
             [''Surveillance renforc'' @ [e_acute] @ ''e'',
              ''Planification des restrictions'',
              ''Coordination locale''],
           t_periode = ''15-45 jours'',
           t_urgence = [E_acute] @ ''LEV'' @ [E_acute] @ ''E'' \<rparr>
     | _ \<Rightarrow>
         \<lparr> t_titre = ''VIGILANCE - '' @ group_type @ '' '' @ group_name,
           t_evaluation = ''Situation sous surveillance ('' @ format_1f avg_score @ ''%).'',
           t_zones_prioritaires = [''Points chauds identifi'' @ [e_acute] @ ''s''],
           t_actions = [''Monitoring continu'', ''Pr'' @ [e_acute] @ ''paration des plans''],
           t_periode = ''1-2 mois'',
           t_urgence = ''MOD'' @ [E_acute] @ ''R'' @ [E_acute] @ ''E'' \<rparr>)"

text \<open>
  \<open>generate_fallback_group_alert\<close>. The text is a triple-quoted f-string written inside
  the method body: it opens with a line break, and every line carries the eight spaces
  of the source's indentation.
\<close>

definition generate_fallback_group_alert ::
  "string \<Rightarrow> string \<Rightarrow> risk_level \<Rightarrow> real \<Rightarrow> sample_indicator list \<Rightarrow> string" where
  "generate_fallback_group_alert group_name group_type lvl avg_score inds =
    (let template = risk_templates_get group_name group_type avg_score lvl
     in [newline] @ ''        TITRE_GROUPE: '' @ t_titre template
        @ [newline] @ ''        '' @ [E_acute] @ ''VALUATION: '' @ t_evaluation template
        @ '' Bas'' @ [e_acute] @ '' sur l'' @ [apostrophe] @ ''analyse de ''
        @ show_nat (length inds)
        @ '' localit'' @ [e_acute] @ ''s '' @ [e_acute] @ ''chantillons.''
        @ [newline] @ ''        ZONES_PRIORITAIRES: ''
        @ join ''; '' (t_zones_prioritaires template)
        @ [newline] @ ''        ACTIONS_COORDONN'' @ [E_acute] @ ''ES: ''
        @ join ''; '' (t_actions template)
        @ [newline] @ ''        P'' @ [E_acute] @ ''RIODE: '' @ t_periode template
        @ [newline] @ ''        URGENCE: '' @ t_urgence template
        @ [newline] @ ''        '')"

text \<open>
  \<open>parse_group_alert_message\<close>. The result dictionary has at most six keys; an absent
  key is \<open>None\<close>.
\<close>

record parsed_alert =
  titre_groupe :: "string option"
  evaluation :: "string option"
  zones_prioritaires :: "string list option"
  actions_coordonnees :: "string list option"
  periode :: "string option"
  urgence :: "string option"

definition empty_parsed_alert :: parsed_alert where
  "empty_parsed_alert =
    \<lparr> titre_groupe = None, evaluation = None, zones_prioritaires = None,
      actions_coordonnees = None, periode = None, urgence = None \<rparr>"

definition parse_line :: "parsed_alert \<Rightarrow> string \<Rightarrow> parsed_alert" where
  "parse_line parsed line =
    (if startswith line ''TITRE_GROUPE:'' then
       parsed\<lparr> titre_groupe := Some (strip (replace_str ''TITRE_GROUPE:'' [] line)) \<rparr>
     else if startswith line ([E_acute] @ ''VALUATION:'') then
       parsed\<lparr> evaluation := Some (strip (replace_str ([E_acute] @ ''VALUATION:'') [] line)) \<rparr>
     else if startswith line ''ZONES_PRIORITAIRES:'' then
       (let zones_text = strip (replace_str ''ZONES_PRIORITAIRES:'' [] line)
        in parsed\<lparr> zones_prioritaires := Some (map strip (split_char CHR '';'' zones_text)) \<rparr>)
     else if startswith line (''ACTIONS_COORDONN'' @ [E_acute] @ ''ES:'') then
       (let actions_text = strip (replace_str (''ACTIONS_COORDONN'' @ [E_acute] @ ''ES:'') [] line)
        in parsed\<lparr> actions_coordonnees :=
                    Some (map strip (split_char CHR '';'' actions_text)) \<rparr>)
     else if startswith line (''P'' @ [E_acute] @ ''RIODE:'') then
       parsed\<lparr> periode := Some (strip (replace_str (''P'' @ [E_acute] @ ''RIODE:'') [] line)) \<rparr>
     else if startswith line ''URGENCE:'' then
       parsed\<lparr> urgence := Some (strip (replace_str ''URGENCE:'' [] line)) \<rparr>
     else parsed)"

definition parse_group_alert_message :: "string \<Rightarrow> parsed_alert" where
  "parse_group_alert_message alert_text =
    foldl parse_line empty_parsed_alert (split_char newline alert_text)"

text \<open>
  What the round trip asks of a parsed alert: the six fields present and none empty
  (for the two list fields: a non-empty list of non-empty items).
\<close>

definition all_fields_recovered :: "parsed_alert \<Rightarrow> bool" where
  "all_fields_recovered pa \<longleftrightarrow>
     (case titre_groupe pa of Some t \<Rightarrow> t \<noteq> [] | None \<Rightarrow> False)
   \<and> (case evaluation pa of Some t \<Rightarrow> t \<noteq> [] | None \<Rightarrow> False)
   \<and> (case zones_prioritaires pa of Some zs \<Rightarrow> zs \<noteq> [] \<and> [] \<notin> set zs | None \<Rightarrow> False)
   \<and> (case actions_coordonnees pa of Some zs \<Rightarrow> zs \<noteq> [] \<and> [] \<notin> set zs | None \<Rightarrow> False)
   \<and> (case periode pa of Some t \<Rightarrow> t \<noteq> [] | None \<Rightarrow> False)
   \<and> (case urgence pa of Some t \<Rightarrow> t \<noteq> [] | None \<Rightarrow> False)"

record group_recommendations =
  coordination :: string
  communication :: string
  ressources :: string
  surveillance :: string

definition generate_group_recommendations :: "risk_level \<Rightarrow> string \<Rightarrow> group_recommendations" where
  "generate_group_recommendations lvl group_type =
    (case lvl of
       TresEleve \<Rightarrow>
         \<lparr> coordination = ''Activation cellule de crise r'' @ [e_acute] @ ''gionale'',
           communication = ''Alerte unifi'' @ [e_acute] @ ''e '' @ [a_grave]
             @ '' toute la population'',
           ressources = ''Mobilisation ressources d'' @ [apostrophe] @ ''urgence'',
           surveillance = ''Monitoring horaire des indicateurs'' \<rparr>
     | Eleve \<Rightarrow>
         \<lparr> coordination = ''R'' @ [e_acute] @ ''union hebdomadaire des acteurs'',
           communication = ''Information cibl'' @ [e_acute] @ ''e aux agriculteurs'',
           ressources = ''Pr'' @ [e_acute] @ ''positionnement des ressources'',
           surveillance = ''Surveillance quotidienne renforc'' @ [e_acute] @ ''e'' \<rparr>
     | Faible \<Rightarrow>
         \<lparr> coordination = ''R'' @ [e_acute] @ ''union mensuelle'',
           communication = ''Information standard'',
           ressources = ''Maintenance routine'',
           surveillance = ''Contr'' @ [o_circ] @ ''le p'' @ [e_acute] @ ''riodique'' \<rparr>
     | _ \<Rightarrow>
         \<lparr> coordination = ''Point bi-hebdomadaire'',
           communication = ''Bulletin d'' @ [apostrophe] @ ''information r'' @ [e_acute]
             @ ''gulier'',
           ressources = [E_acute] @ ''valuation des stocks'',
           surveillance = ''Monitoring standard'' \<rparr>)"

text \<open>
  What the module takes from outside the repository's pure code: the pandas sample of a
  group (\<open>DataFrame.sample(n, random_state=42)\<close>), the climate fetch (which returns a
  record, returns nothing, or raises), the scipy calls, the clock, and the API key of
  the process environment.
\<close>

record environment =
  df_sample :: "nat \<Rightarrow> locality list \<Rightarrow> locality list"
  get_climate_data :: "real \<Rightarrow> real \<Rightarrow> string \<Rightarrow> py_error + climate_data option"
  scipy_fit :: gamma_fit
  now_isoformat :: string
  api_key :: "string option"

text \<open>
  \<open>self.call_deepseek_api\<close>: the class \<open>AlertGenerator\<close> defines no such method, so the
  attribute lookup raises.
\<close>

definition call_deepseek_api :: "py_error + string" where
  "call_deepseek_api = Inl AttributeError"

definition generate_group_ai_alert ::
  "environment \<Rightarrow> string \<Rightarrow> string \<Rightarrow> sample_indicator list \<Rightarrow> risk_level \<Rightarrow> real \<Rightarrow> nat
    \<Rightarrow> string" where
  "generate_group_ai_alert env group_name group_type inds lvl avg_score total_localities =
    (if api_key env = None \<or> api_key env = Some [] then
       generate_fallback_group_alert group_name group_type lvl avg_score inds
     else
       (case call_deepseek_api of
          Inr response \<Rightarrow> response
        | Inl e \<Rightarrow> generate_fallback_group_alert group_name group_type lvl avg_score inds))"

record group_alert =
  groupe_nom :: string
  groupe_type :: string
  localites_echantillon :: "string list"
  total_localites :: nat
  periode_analyse :: string
  date_generation :: string
  niveau_risque_groupe :: risk_level
  score_risque_moyen :: real
  ratio_risque_eleve :: real
  indicateurs_echantillon :: "sample_indicator list"
  alerte :: string
  recommandations_prioritaires :: group_recommendations

type_synonym sample_state = "sample_indicator list \<times> nat \<times> int"

text \<open>
  One iteration of the loop over the sampled localities: an exception is caught and
  the locality skipped, an empty result is skipped, a climate record is scored.
\<close>

definition analyse_sample :: "environment \<Rightarrow> string \<Rightarrow> sample_state \<Rightarrow> locality \<Rightarrow> sample_state" where
  "analyse_sample env analysis_period st loc =
    (case st of (group_indicators, high_risk_count, total_risk_score) \<Rightarrow>
     case get_climate_data env (latitude loc) (longitude loc) analysis_period of
       Inl e \<Rightarrow> st
     | Inr None \<Rightarrow> st
     | Inr (Some cd) \<Rightarrow>
         (let drought_indicators = calculate_drought_indicators (scipy_fit env) (Some cd);
              ra = assess_drought_risk drought_indicators
          in (group_indicators @
                [\<lparr> si_localite = localite loc,
                   si_risk_level = risk_level ra,
                   si_risk_score = risk_score ra,
                   si_spi = ind_get drought_indicators ''spi_mean'' 0,
                   si_deficit = ind_get drought_indicators ''precipitation_deficit'' 0,
                   si_dry_days = ind_get drought_indicators ''consecutive_dry_days'' 0 \<rparr>],
              (if risk_level ra = Eleve \<or> risk_level ra = TresEleve
               then high_risk_count + 1 else high_risk_count),
              total_risk_score + risk_score ra)))"

definition group_level :: "real \<Rightarrow> real \<Rightarrow> risk_level" where
  "group_level high_risk_ratio avg_risk_score =
    (if high_risk_ratio \<ge> 0.7 \<or> avg_risk_score \<ge> 70 then TresEleve
     else if high_risk_ratio \<ge> 0.4 \<or> avg_risk_score \<ge> 50 then Eleve
     else if high_risk_ratio \<ge> 0.2 \<or> avg_risk_score \<ge> 30 then Modere
     else Faible)"

definition generate_group_alert ::
  "environment \<Rightarrow> string \<Rightarrow> locality list \<Rightarrow> string \<Rightarrow> string \<Rightarrow> group_alert option" where
  "generate_group_alert env group_name group_localities analysis_period group_type =
    (let sample_size = min 3 (length group_localities);
         sample_localities = df_sample env sample_size group_localities
     in case foldl (analyse_sample env analysis_period) ([], 0, 0) sample_localities of
          (group_indicators, high_risk_count, total_risk_score) \<Rightarrow>
            if group_indicators = [] then None
            else
              (let avg_risk_score = real_of_int total_risk_score / real (length group_indicators);
                   high_risk_ratio = real high_risk_count / real (length group_indicators);
                   group_risk_level = group_level high_risk_ratio avg_risk_score;
                   alert_message = generate_group_ai_alert env group_name group_type
                     group_indicators group_risk_level avg_risk_score (length group_localities)
               in Some \<lparr> groupe_nom = group_name,
                         groupe_type = group_type,
                         localites_echantillon = map si_localite group_indicators,
                         total_localites = length group_localities,
                         periode_analyse = analysis_period,
                         date_generation = now_isoformat env,
                         niveau_risque_groupe = group_risk_level,
                         score_risque_moyen = avg_risk_score,
                         ratio_risque_eleve = high_risk_ratio,
                         indicateurs_echantillon = group_indicators,
                         alerte = alert_message,
                         recommandations_prioritaires =
                           generate_group_recommendations group_risk_level group_type \<rparr>))"

text \<open>
  \<open>DataFrame.groupby(column)\<close>: one group per distinct key, in sorted key order, each
  holding the rows of that key in their original order.
\<close>

definition groupby :: "(locality \<Rightarrow> string) \<Rightarrow> locality list \<Rightarrow> (string \<times> locality list) list" where
  "groupby key df = map (\<lambda>k. (k, filter (\<lambda>l. key l = k) df)) (sort (remdups (map key df)))"

definition alerts_step ::
  "environment \<Rightarrow> string \<Rightarrow> string \<Rightarrow> group_alert list \<Rightarrow> string \<times> locality list
    \<Rightarrow> group_alert list" where
  "alerts_step env analysis_period group_by alerts g =
    (case generate_group_alert env (fst g) (snd g) analysis_period group_by of
       Some group_alert \<Rightarrow> alerts @ [group_alert]
     | None \<Rightarrow> alerts)"

text \<open>
  \<open>generate_alerts_by_group\<close>. For a \<open>group_by\<close> other than \<open>region\<close> and \<open>zone\<close> the source
  calls \<open>self.generate_alerts_for_all_localities\<close>, a method the class does not define.
\<close>

definition generate_alerts_by_group ::
  "environment \<Rightarrow> locality list \<Rightarrow> string \<Rightarrow> string \<Rightarrow> py_error + group_alert list" where
  "generate_alerts_by_group env localities_df analysis_period group_by =
    (if group_by = ''region'' then
       Inr (foldl (alerts_step env analysis_period group_by) []
              (groupby region localities_df))
     else if group_by = ''zone'' then
       Inr (foldl (alerts_step env analysis_period group_by) []
              (groupby zone localities_df))
     else Inl AttributeError)"

definition high_risk :: "sample_indicator \<Rightarrow> bool" where
  "high_risk s \<longleftrightarrow> si_risk_level s = Eleve \<or> si_risk_level s = TresEleve"

text \<open>A sampled locality is analysed when the climate fetch returns a record.\<close>

definition sample_succeeds :: "environment \<Rightarrow> string \<Rightarrow> locality \<Rightarrow> bool" where
  "sample_succeeds env analysis_period loc =
    (case get_climate_data env (latitude loc) (longitude loc) analysis_period of
       Inr (Some cd) \<Rightarrow> True
     | _ \<Rightarrow> False)"

text \<open>An outcome function of the scipy calls under which every fit raises.\<close>

definition fit_raises :: gamma_fit where
  "fit_raises w t = Raised"

section \<open>flood\_monitoring: config.py and flood\_calculator.py\<close>

text \<open>\<open>Config.PRECIPITATION_THRESHOLDS\<close> and \<open>Config.ALERT_LEVELS\<close>.\<close>

definition intensity_hourly :: real where "intensity_hourly = 50"
definition cumul_3h :: real where "cumul_3h = 100"
definition cumul_daily :: real where "cumul_daily = 200"
definition soil_moisture_threshold :: real where "soil_moisture_threshold = 85"

record alert_info =
  color :: string
  delay :: string
  actions :: string

definition ALERT_LEVELS :: "(string \<times> alert_info) list" where
  "ALERT_LEVELS =
    [(''Vigilance'',
      \<lparr> color = ''green'', delay = ''72-48h'',
        actions = ''Surveillance renforc'' @ [e_acute] @ ''e'' \<rparr>),
     (''Pr'' @ [e_acute] @ ''-alerte'',
      \<lparr> color = ''yellow'', delay = ''48-24h'',
        actions = ''Pr'' @ [e_acute] @ ''paration communautaire'' \<rparr>),
     (''Alerte'',
      \<lparr> color = ''orange'', delay = ''24-6h'',
        actions = ''Mise en s'' @ [e_acute] @ ''curit'' @ [e_acute] @ '' biens/mat''
          @ [e_acute] @ ''riels'' \<rparr>),
     (''Alerte Maximale'',
      \<lparr> color = ''red'', delay = ''<6h'',
        actions = [E_acute] @ ''vacuation populations'' \<rparr>)]"

text \<open>
  The weather dictionary is the decoded JSON of the weather service or the fallback
  record: a key can be absent, and an entry of a numeric list can be \<open>null\<close>.
\<close>

record hourly_data =
  h_precipitation :: "real option list option"
  h_temperature_2m :: "real option list option"
  h_relative_humidity_2m :: "real option list option"

record weather_data =
  hourly :: "hourly_data option"
  w_soil_moisture :: "real option list option"

record locality_data =
  type_inondation :: "string option"
  l_zone :: "string option"
  facteurs_aggravation :: "string option"
  altitude :: "real option"

record flood_details =
  ffg_score :: real
  ifs_score :: real
  soil_saturation :: real
  type_factor :: real
  precipitation_24h :: real
  max_hourly_precip :: real
  flood_type :: string
  alert_details :: alert_info

text \<open>
  Arithmetic on a list that holds a \<open>null\<close> raises \<open>TypeError\<close> (\<open>sum\<close>, \<open>max\<close>,
  \<open>np.mean\<close>); on a list of numbers it does not raise.
\<close>

definition numbers :: "real option list \<Rightarrow> py_error + real list" where
  "numbers xs = (if None \<in> set xs then Inl TypeError else Inr (map the xs))"

definition py_max0 :: "real list \<Rightarrow> real" where
  "py_max0 xs = (if xs = [] then 0 else Max (set xs))"

text \<open>\<open>str.lower()\<close> on the code points below U+0100, and the test \<open>word in text\<close>.\<close>

definition lower_char :: "char \<Rightarrow> char" where
  "lower_char c =
    (let n = (of_char c :: nat)
     in if (65 \<le> n \<and> n \<le> 90) \<or> (192 \<le> n \<and> n \<le> 222 \<and> n \<noteq> 215)
        then char_of (n + 32) else c)"

definition lower :: "string \<Rightarrow> string" where
  "lower s = map lower_char s"

fun contains :: "string \<Rightarrow> string \<Rightarrow> bool" where
  "contains [] w = (w = [])"
| "contains (c # cs) w = (startswith (c # cs) w \<or> contains cs w)"

definition calculate_ffg :: "real list \<Rightarrow> string \<Rightarrow> real" where
  "calculate_ffg precip ftype =
    (let total_precip = sum_list precip;
         max_hourly = py_max0 precip;
         threshold_factor =
           (if ftype = ''C'' @ [o_circ] @ ''ti'' @ [e_grave] @ ''re'' then 0.8
            else if ftype = ''Pluviale'' then 1.0
            else 1.2)
     in min ((max_hourly / (intensity_hourly * threshold_factor)) * 0.6
             + (total_precip / (cumul_daily * threshold_factor)) * 0.4)
            1.0)"

definition calculate_ifs :: "real list \<Rightarrow> real list \<Rightarrow> locality_data \<Rightarrow> real" where
  "calculate_ifs precip humidity l =
    (let zone_l = lower (case l_zone l of None \<Rightarrow> [] | Some z \<Rightarrow> z);
         factors_l = lower (case facteurs_aggravation l of None \<Rightarrow> [] | Some f \<Rightarrow> f);
         f1 = (if contains zone_l ''urbain''
                  \<or> contains zone_l (''c'' @ [o_circ] @ ''ti'' @ [e_grave] @ ''re'')
               then 1.3 else 1.0);
         impermeability_factor = (if contains factors_l ''urbanisation'' then 1.5 else f1);
         avg_humidity = (if humidity \<noteq> [] then np_mean humidity else 60);
         humidity_factor = avg_humidity / 100;
         precip_intensity = (if precip \<noteq> [] then np_mean precip else 0);
         intensity_factor = min (precip_intensity / 20) 1.0
     in min (impermeability_factor * (intensity_factor * 0.7 + humidity_factor * 0.3)) 1.0)"

text \<open>
  \<open>weather_data.get('soil_moisture', [50])[0]\<close>: an empty list raises \<open>IndexError\<close>,
  a \<open>null\<close> first entry raises \<open>TypeError\<close> at the division.
\<close>

definition calculate_soil_saturation :: "weather_data \<Rightarrow> locality_data \<Rightarrow> py_error + real" where
  "calculate_soil_saturation w l =
    (case (case w_soil_moisture w of None \<Rightarrow> [Some 50] | Some xs \<Rightarrow> xs) of
       [] \<Rightarrow> Inl IndexError
     | None # _ \<Rightarrow> Inl TypeError
     | Some soil # _ \<Rightarrow>
         (let alt = (case altitude l of None \<Rightarrow> 100 | Some a \<Rightarrow> a);
              altitude_factor = max 0.5 (1 - alt / 1000);
              saturation = min (soil / soil_moisture_threshold) 1.0
          in Inr (saturation * altitude_factor)))"

definition get_flood_type_factor :: "string \<Rightarrow> locality_data \<Rightarrow> real" where
  "get_flood_type_factor ftype l =
    (let base_factor =
           (if ftype = ''C'' @ [o_circ] @ ''ti'' @ [e_grave] @ ''re'' then 1.2
            else if ftype = ''Pluviale'' then 1.1
            else if ftype = ''Fluviale'' then 1.0
            else if ftype = ''Mixte'' then 1.15
            else 1.0);
         factors_l = lower (case facteurs_aggravation l of None \<Rightarrow> [] | Some f \<Rightarrow> f);
         base_factor2 =
           (if contains factors_l ''drainage insuffisant''
               \<or> contains factors_l (''d'' @ [e_acute] @ ''frichement'')
            then base_factor * 1.2 else base_factor)
     in min base_factor2 1.5 / 1.5)"

text \<open>\<open>self.alert_levels[level]\<close> is a dictionary subscript: a missing key raises.\<close>

definition determine_alert_level :: "real \<Rightarrow> real list \<Rightarrow> py_error + string \<times> alert_info" where
  "determine_alert_level risk precip =
    (let max_precip = py_max0 precip;
         intensity_factor = min (max_precip / intensity_hourly) 2.0;
         adjusted_score = min (risk * intensity_factor) 1.0;
         level =
           (if adjusted_score \<ge> 0.8 then ''Alerte Maximale''
            else if adjusted_score \<ge> 0.6 then ''Alerte''
            else if adjusted_score \<ge> 0.4 then ''Pr'' @ [e_acute] @ ''-alerte''
            else ''Vigilance'')
     in case map_of ALERT_LEVELS level of
          None \<Rightarrow> Inl KeyError
        | Some details \<Rightarrow> Inr (level, details))"

text \<open>The body of the \<open>try\<close> block of \<open>calculate_risk\<close>.\<close>

definition calculate_risk_try ::
  "weather_data \<Rightarrow> locality_data \<Rightarrow> py_error + string \<times> real \<times> flood_details option" where
  "calculate_risk_try w l =
    (let hourly_d = (case hourly w of
                 None \<Rightarrow> \<lparr> h_precipitation = None, h_temperature_2m = None,
                            h_relative_humidity_2m = None \<rparr>
               | Some h \<Rightarrow> h);
         precipitation_raw =
           take 24 (case h_precipitation hourly_d of None \<Rightarrow> [Some 0] | Some xs \<Rightarrow> xs);
         humidity_raw =
           take 24 (case h_relative_humidity_2m hourly_d of None \<Rightarrow> [Some 60] | Some xs \<Rightarrow> xs);
         ftype = (case type_inondation l of None \<Rightarrow> ''Mixte'' | Some t \<Rightarrow> t)
     in case numbers precipitation_raw of
          Inl e \<Rightarrow> Inl e
        | Inr precip \<Rightarrow>
     (case numbers humidity_raw of
          Inl e \<Rightarrow> Inl e
        | Inr humidity \<Rightarrow>
     (case calculate_soil_saturation w l of
          Inl e \<Rightarrow> Inl e
        | Inr soil \<Rightarrow>
     (let ffg = calculate_ffg precip ftype;
          ifs = calculate_ifs precip humidity l;
          tf = get_flood_type_factor ftype l;
          risk = ffg * 0.4 + ifs * 0.3 + soil * 0.2 + tf * 0.1
      in case determine_alert_level risk precip of
           Inl e \<Rightarrow> Inl e
         | Inr (alert_level, details) \<Rightarrow>
             Inr (alert_level, risk,
                  Some \<lparr> ffg_score = ffg, ifs_score = ifs, soil_saturation = soil,
                         type_factor = tf, precipitation_24h = sum_list precip,
                         max_hourly_precip = py_max0 precip, flood_type = ftype,
                         alert_details = details \<rparr>)))))"

text \<open>
  \<open>calculate_risk\<close>: the handler \<open>except Exception\<close> returns \<open>("Inconnu", 0.0, {})\<close>;
  the empty dictionary of details is \<open>None\<close>.
\<close>

definition calculate_risk ::
  "weather_data \<Rightarrow> locality_data \<Rightarrow> string \<times> real \<times> flood_details option" where
  "calculate_risk w l =
    (case calculate_risk_try w l of
       Inl e \<Rightarrow> (''Inconnu'', 0.0, None)
     | Inr r \<Rightarrow> r)"

definition get_fallback_data :: weather_data where
  "get_fallback_data =
    \<lparr> hourly = Some \<lparr> h_precipitation = Some (replicate 24 (Some 0)),
                      h_temperature_2m = Some (replicate 24 (Some 25)),
                      h_relative_humidity_2m = Some (replicate 24 (Some 60)) \<rparr>,
      w_soil_moisture = None \<rparr>"

definition douala :: locality_data where
  "douala = \<lparr> type_inondation = Some ''Pluviale'', l_zone = Some ''Urbain'',
               facteurs_aggravation = Some ''Urbanisation'', altitude = Some 13 \<rparr>"


section \<open>forecast\_analyzer.py: synthetic forecasts\<close>

text \<open>
  numpy's global generator is state threaded through the calls. An array draw of size
  \<open>n\<close> is \<open>n\<close> successive draws from the stream. The generator itself is outside the
  repository; its seeding and its single draws are parameters over an arbitrary state
  type.
\<close>

record 'g numpy_random =
  rng_seed :: "nat \<Rightarrow> 'g"
  draw_normal :: "real \<Rightarrow> real \<Rightarrow> 'g \<Rightarrow> real \<times> 'g"
  draw_exponential :: "real \<Rightarrow> 'g \<Rightarrow> real \<times> 'g"
  draw_binomial :: "nat \<Rightarrow> real \<Rightarrow> 'g \<Rightarrow> real \<times> 'g"

fun draw_each :: "('a \<Rightarrow> 'g \<Rightarrow> real \<times> 'g) \<Rightarrow> 'a list \<Rightarrow> 'g \<Rightarrow> real list \<times> 'g" where
  "draw_each d [] g = ([], g)"
| "draw_each d (p # ps) g =
     (case d p g of (x, g1) \<Rightarrow> (case draw_each d ps g1 of (xs, g2) \<Rightarrow> (x # xs, g2)))"

definition random_normal :: "'g numpy_random \<Rightarrow> real \<Rightarrow> real \<Rightarrow> nat \<Rightarrow> 'g \<Rightarrow> real list \<times> 'g" where
  "random_normal rng loc scale n g = draw_each (\<lambda>_. draw_normal rng loc scale) (replicate n ()) g"

definition random_exponential :: "'g numpy_random \<Rightarrow> real \<Rightarrow> nat \<Rightarrow> 'g \<Rightarrow> real list \<times> 'g" where
  "random_exponential rng scale n g = draw_each (\<lambda>_. draw_exponential rng scale) (replicate n ()) g"

definition random_binomial :: "'g numpy_random \<Rightarrow> nat \<Rightarrow> real list \<Rightarrow> 'g \<Rightarrow> real list \<times> 'g" where
  "random_binomial rng k ps g = draw_each (draw_binomial rng k) ps g"

text \<open>
  \<open>np.random.seed(int(latitude * 100 + longitude))\<close>: \<open>int\<close> truncates towards zero, and
  the legacy seeding raises \<open>ValueError\<close> outside \<open>0 .. 2**32 - 1\<close>.
\<close>

definition py_int :: "real \<Rightarrow> int" where
  "py_int x = (if x \<ge> 0 then \<lfloor>x\<rfloor> else \<lceil>x\<rceil>)"

definition seed_from_location :: "'g numpy_random \<Rightarrow> real \<Rightarrow> real \<Rightarrow> py_error + 'g" where
  "seed_from_location rng lat lon =
    (let s = py_int (lat * 100 + lon)
     in if s < 0 \<or> s \<ge> 2 ^ 32 then Inl ValueError else Inr (rng_seed rng (nat s)))"

definition linspace :: "real \<Rightarrow> real \<Rightarrow> nat \<Rightarrow> real list" where
  "linspace a b n =
    (if n = 1 then [a] else map (\<lambda>i. a + real i * ((b - a) / real (n - 1))) [0..<n])"

text \<open>
  The returned dictionary. The two generators do not set the same keys: an absent key
  is \<open>None\<close>.
\<close>

record forecast =
  f_dates :: "int list"
  f_temperature_max :: "real list"
  f_temperature_min :: "real list option"
  f_precipitation :: "real list"
  f_et0 :: "real list option"
  f_type :: string
  f_timeframe :: string
  f_confidence :: real
  f_warming_trend :: "real list option"
  f_precip_trend :: "real list option"

text \<open>
  \<open>get_30day_forecast\<close>. The date index \<open>pd.date_range(start=now, end=now + 30 days)\<close>
  comes from the clock and is an input; \<open>g\<close> is the state of the global generator when
  the call starts. The result comes with the state the call leaves behind.
\<close>

definition get_30day_forecast ::
  "'g numpy_random \<Rightarrow> 'g \<Rightarrow> int list \<Rightarrow> real \<Rightarrow> real \<Rightarrow> (py_error + forecast) \<times> 'g" where
  "get_30day_forecast rng g ds lat lon =
    (case seed_from_location rng lat lon of
       Inl e \<Rightarrow> (Inl e, g)
     | Inr g0 \<Rightarrow>
        (let n = length ds;
             base_temp = 25 + (lat - 5) * 0.5
         in case random_normal rng 3 2 n g0 of (r1, g1) \<Rightarrow>
            case random_normal rng (- 3) 2 n g1 of (r2, g2) \<Rightarrow>
            case random_exponential rng 5 n g2 of (r3, g3) \<Rightarrow>
            case random_binomial rng 1 (linspace 0.3 0.1 n) g3 of (r4, g4) \<Rightarrow>
            case random_normal rng 4 1 n g4 of (r5, g5) \<Rightarrow>
              (Inr \<lparr> f_dates = ds,
                     f_temperature_max = map (\<lambda>x. base_temp + x) r1,
                     f_temperature_min = Some (map (\<lambda>x. base_temp + x) r2),
                     f_precipitation = map2 (*) r3 r4,
                     f_et0 = Some r5,
                     f_type = ''30days'',
                     f_timeframe = ''30 jours'',
                     f_confidence = 0.7,
                     f_warming_trend = None,
                     f_precip_trend = None \<rparr>, g5)))"

text \<open>\<open>get_longterm_forecast\<close>, with the monthly date index as an input.\<close>

definition get_longterm_forecast ::
  "'g numpy_random \<Rightarrow> 'g \<Rightarrow> int list \<Rightarrow> real \<Rightarrow> real \<Rightarrow> nat \<Rightarrow> (py_error + forecast) \<times> 'g" where
  "get_longterm_forecast rng g ds lat lon years =
    (case seed_from_location rng lat lon of
       Inl e \<Rightarrow> (Inl e, g)
     | Inr g0 \<Rightarrow>
        (let n = length ds;
             base_temp = 25 + (lat - 5) * 0.5;
             warming_trend = linspace 0 (0.8 * real years) n
         in case random_normal rng 0 2 n g0 of (r1, g1) \<Rightarrow>
            (let precip_trend = linspace 0 (- 0.1 * real years) n
             in case random_exponential rng 80 n g1 of (r2, g2) \<Rightarrow>
              (Inr \<lparr> f_dates = ds,
                     f_temperature_max = map2 (+) (map (\<lambda>w. base_temp + w) warming_trend) r1,
                     f_temperature_min = None,
                     f_precipitation =
                       map (max 0) (map2 (+) r2 (map (\<lambda>t. t * 20) precip_trend)),
                     f_et0 = None,
                     f_type = show_nat years @ ''year'',
                     f_timeframe = show_nat years @ '' an(s)'',
                     f_confidence = 0.5,
                     f_warming_trend = Some warming_trend,
                     f_precip_trend = Some precip_trend \<rparr>, g2))))"

text \<open>The pseudo-random series of a forecast.\<close>

definition random_series ::
  "forecast \<Rightarrow> real list \<times> real list option \<times> real list \<times> real list option" where
  "random_series f = (f_temperature_max f, f_temperature_min f, f_precipitation f, f_et0 f)"


section \<open>Concrete inputs used to instantiate the theorems\<close>

text \<open>
  Three days without rain, hot, on dry soil; an environment whose climate fetch fails
  south of latitude 5 and returns that record elsewhere; two localities.
\<close>

definition dry_spell_data :: climate_data where
  "dry_spell_data =
    \<lparr> dates = [1, 2, 3], temperature_2m_max = [40, 40, 40],
      temperature_2m_min = [20, 20, 20], temperature_2m_mean = [30, 30, 30],
      precipitation = [0, 0, 0], soil_moisture = [10, 10, 10], et0 = [5, 5, 5],
      relative_humidity = [50, 50, 50] \<rparr>"

definition test_env :: environment where
  "test_env =
    \<lparr> df_sample = (\<lambda>n locs. take n locs),
      get_climate_data = (\<lambda>lat lon period.
         if lat < 5 then Inl ExternalFailure else Inr (Some dry_spell_data)),
      scipy_fit = fit_raises,
      now_isoformat = ''2025-01-01T00:00:00'',
      api_key = None \<rparr>"

definition garoua :: locality where
  "garoua = \<lparr> localite = ''Garoua'', latitude = 9.3, longitude = 13.4,
               region = ''Nord'', zone = ''Soudano-Sahelienne'' \<rparr>"

definition kribi :: locality where
  "kribi = \<lparr> localite = ''Kribi'', latitude = 2.9, longitude = 9.9,
              region = ''Sud'', zone = ''Cotiere'' \<rparr>"


definition three_samples :: "sample_indicator list" where
  "three_samples =
    replicate 3 \<lparr> si_localite = ''Garoua'', si_risk_level = TresEleve, si_risk_score = 75,
                  si_spi = - 2.1, si_deficit = 65, si_dry_days = 25 \<rparr>"

text \<open>
  Date indexes, as day numbers counted from 2025-01-01 (day 0). \<open>get_30day_forecast\<close>
  reads the clock once for the end of its range and once more for the start: the daily
  index holds 31 days when the two reads coincide and 30 when the second is later.
  \<open>get_longterm_forecast\<close> with \<open>years = 1\<close> takes the month ends of the 365 days from
  the call: 13 of them for a call on 2025-01-31, 12 for a call on 2025-02-15.
\<close>

definition daily_index :: "nat \<Rightarrow> int list" where
  "daily_index n = map int [0..<n]"




text \<open>A toy generator: the state is a counter, seeding sets it.\<close>

definition counter_rng :: "nat numpy_random" where
  "counter_rng =
    \<lparr> rng_seed = (\<lambda>s. s),
      draw_normal = (\<lambda>loc scale g. (loc + scale * real (g mod 3), g + 1)),
      draw_exponential = (\<lambda>scale g. (scale * real (g mod 5), g + 1)),
      draw_binomial = (\<lambda>k p g. (if even g then 1 else 0, g + 1)) \<rparr>"

section \<open>Properties of the risk scorer\<close>

lemma risk_score_eq:
  "risk_score (assess_drought_risk ind) =
     fst (spi_points (ind_get ind ''spi_mean'' 0))
   + fst (deficit_points (ind_get ind ''precipitation_deficit'' 0))
   + fst (dry_days_points (ind_get ind ''consecutive_dry_days'' 0))
   + fst (heat_points (ind_get ind ''heat_stress'' 0))
   + fst (soil_points (ind_get ind ''soil_moisture_mean'' 50))"
  by (simp add: assess_drought_risk_def Let_def)

lemma risk_level_eq:
  "risk_level (assess_drought_risk ind) = fst (classify (risk_score (assess_drought_risk ind)))"
  by (simp add: assess_drought_risk_def Let_def)

lemma deficit_points_mono: "d1 \<le> d2 \<Longrightarrow> fst (deficit_points d1) \<le> fst (deficit_points d2)"
  by (simp add: deficit_points_def)

text \<open>
  C3. On the indicator set with \<open>spi_mean = -2.1\<close>, \<open>precipitation_deficit = 65\<close>,
  \<open>consecutive_dry_days = 25\<close>, \<open>heat_stress = 55\<close> and \<open>soil_moisture_mean = 15\<close>,
  \<open>assess_drought_risk\<close> returns the score 115 = 40 + 30 + 20 + 10 + 15, not capped at
  100, and the level \<open>Tres Eleve\<close>.
\<close>

theorem C3_example_score_115:
  "risk_score (assess_drought_risk example_indicators) = 115
   \<and> risk_level (assess_drought_risk example_indicators) = TresEleve"
proof -
  have s: "risk_score (assess_drought_risk example_indicators) = 115"
    by (simp add: risk_score_eq example_indicators_def ind_get_def spi_points_def
        deficit_points_def dry_days_points_def heat_points_def soil_points_def)
  show ?thesis
    by (simp add: risk_level_eq s classify_def)
qed

text \<open>
  C5. The risk score is monotonic in the precipitation deficit: of two indicator sets
  that agree on every entry other than \<open>precipitation_deficit\<close>, the one with the
  smaller deficit (an absent entry reads as 0) does not get the larger score.
\<close>

theorem C5_score_monotonic_in_deficit:
  assumes "\<forall>k. k \<noteq> ''precipitation_deficit'' \<longrightarrow> scalars ind1 k = scalars ind2 k"
    and "ind_get ind1 ''precipitation_deficit'' 0 \<le> ind_get ind2 ''precipitation_deficit'' 0"
  shows "risk_score (assess_drought_risk ind1) \<le> risk_score (assess_drought_risk ind2)"
proof -
  have same: "ind_get ind1 k d = ind_get ind2 k d" if "k \<noteq> ''precipitation_deficit''" for k d
    using that assms(1) by (simp add: ind_get_def)
  have "fst (deficit_points (ind_get ind1 ''precipitation_deficit'' 0))
        \<le> fst (deficit_points (ind_get ind2 ''precipitation_deficit'' 0))"
    using assms(2) by (rule deficit_points_mono)
  then show ?thesis
    unfolding risk_score_eq by (simp add: same)
qed

theorem C5_score_monotonic_witness:
  "risk_score (assess_drought_risk
      (example_indicators\<lparr>scalars :=
         (scalars example_indicators)(''precipitation_deficit'' \<mapsto> 25)\<rparr>)) = 95
   \<and> risk_score (assess_drought_risk example_indicators) = 115
   \<and> risk_score (assess_drought_risk
        (example_indicators\<lparr>scalars :=
           (scalars example_indicators)(''precipitation_deficit'' \<mapsto> 25)\<rparr>))
     \<le> risk_score (assess_drought_risk example_indicators)"
proof -
  let ?low = "example_indicators\<lparr>scalars :=
                (scalars example_indicators)(''precipitation_deficit'' \<mapsto> 25)\<rparr>"
  have a: "\<forall>k. k \<noteq> ''precipitation_deficit'' \<longrightarrow> scalars ?low k = scalars example_indicators k"
    by simp
  have b: "ind_get ?low ''precipitation_deficit'' 0
           \<le> ind_get example_indicators ''precipitation_deficit'' 0"
    by (simp add: ind_get_def example_indicators_def)
  have l: "risk_score (assess_drought_risk ?low) = 95"
    by (simp add: risk_score_eq example_indicators_def ind_get_def spi_points_def
        deficit_points_def dry_days_points_def heat_points_def soil_points_def)
  have h: "risk_score (assess_drought_risk example_indicators) = 115"
    by (simp add: risk_score_eq example_indicators_def ind_get_def spi_points_def
        deficit_points_def dry_days_points_def heat_points_def soil_points_def)
  show ?thesis
    using l h C5_score_monotonic_in_deficit [OF a b] by simp
qed

section \<open>Properties of the period segmentation\<close>

lemma dry_days_close_period: "dry_days (close_period cp ed ei th) = dry_days cp"
  by (simp add: close_period_def Let_def)

lemma seg_step_keeps_min:
  assumes "\<forall>p \<in> set (fst st). 3 \<le> dry_days p"
  shows "\<forall>p \<in> set (fst (seg_step th st x)). 3 \<le> dry_days p"
  using assms
  by (cases st; cases x)
     (auto simp: seg_step_def Let_def dry_days_close_period split: option.splits if_splits)

lemma seg_loop_keeps_min:
  "\<forall>p \<in> set (fst st). 3 \<le> dry_days p
   \<Longrightarrow> \<forall>p \<in> set (fst (foldl (seg_step th) st xs)). 3 \<le> dry_days p"
proof (induction xs arbitrary: st)
  case Nil
  then show ?case by simp
next
  case (Cons x xs)
  have "\<forall>p \<in> set (fst (seg_step th st x)). 3 \<le> dry_days p"
    using Cons.prems by (rule seg_step_keeps_min)
  then show ?case using Cons.IH by simp
qed

lemma detect_min_three:
  "\<forall>p \<in> set (detect_drought_periods cd th). 3 \<le> dry_days p"
proof -
  obtain ps cur where r:
    "foldl (seg_step th) ([], None) (enumerate0 (zip (dates cd) (precipitation cd))) = (ps, cur)"
    by (cases "foldl (seg_step th) ([], None) (enumerate0 (zip (dates cd) (precipitation cd)))")
  have "\<forall>p \<in> set (fst (foldl (seg_step th) ([], None)
            (enumerate0 (zip (dates cd) (precipitation cd))))). 3 \<le> dry_days p"
    by (rule seg_loop_keeps_min) simp
  then have ps: "\<forall>p \<in> set ps. 3 \<le> dry_days p" by (simp add: r)
  show ?thesis
    using ps by (auto simp: detect_drought_periods_def r dry_days_close_period split: option.splits)
qed

lemma seg_loop_all_dry_open:
  "\<forall>x \<in> set xs. snd (snd x) < th
   \<Longrightarrow> \<exists>cp'. foldl (seg_step th) (ps, Some cp) xs = (ps, Some cp')
            \<and> dry_days cp' = dry_days cp + length xs"
proof (induction xs arbitrary: cp)
  case Nil
  then show ?case by simp
next
  case (Cons x xs)
  obtain i d v where x: "x = (i, d, v)" by (cases x)
  from Cons.prems have dry: "v < th" and rest: "\<forall>y \<in> set xs. snd (snd y) < th"
    by (simp_all add: x)
  let ?cp = "cp\<lparr> dry_days := dry_days cp + 1, total_precip := total_precip cp + v \<rparr>"
  have step: "seg_step th (ps, Some cp) x = (ps, Some ?cp)"
    using dry by (simp add: seg_step_def x)
  from Cons.IH [OF rest, of ?cp] obtain cp' where
    "foldl (seg_step th) (ps, Some ?cp) xs = (ps, Some cp')"
    "dry_days cp' = dry_days ?cp + length xs" by blast
  then show ?case by (simp add: step)
qed

lemma seg_loop_all_dry:
  assumes "\<forall>x \<in> set xs. snd (snd x) < th" and "xs \<noteq> []"
  shows "\<exists>cp'. foldl (seg_step th) ([], None) xs = ([], Some cp') \<and> dry_days cp' = length xs"
proof -
  obtain i d v ys where xs: "xs = (i, d, v) # ys"
    using assms(2) by (cases xs) auto
  from assms(1) have dry: "v < th" and rest: "\<forall>y \<in> set ys. snd (snd y) < th"
    by (simp_all add: xs)
  let ?cp = "\<lparr> start_date = d, start_index = i, dry_days = 1, total_precip = v \<rparr>"
  have step: "seg_step th ([], None) (i, d, v) = ([], Some ?cp)"
    using dry by (simp add: seg_step_def)
  from seg_loop_all_dry_open [OF rest, of "[]" ?cp] obtain cp' where
    "foldl (seg_step th) ([], Some ?cp) ys = ([], Some cp')"
    "dry_days cp' = dry_days ?cp + length ys" by blast
  then show ?thesis by (simp add: xs step)
qed

lemma enumerate0_snd: "map snd (enumerate0 xs) = xs"
  by (simp add: enumerate0_def)

lemma length_enumerate0: "length (enumerate0 xs) = length xs"
  by (simp add: enumerate0_def)

lemma detect_all_dry:
  assumes len: "length (dates cd) = length (precipitation cd)"
    and n: "3 \<le> length (precipitation cd)"
    and dry: "\<forall>x \<in> set (precipitation cd). x < th"
  shows "\<exists>p. detect_drought_periods cd th = [p] \<and> dry_days p = length (precipitation cd)"
proof -
  let ?xs = "enumerate0 (zip (dates cd) (precipitation cd))"
  have l: "length ?xs = length (precipitation cd)"
    using len by (simp add: length_enumerate0)
  have "set (map snd (map snd ?xs)) \<subseteq> set (precipitation cd)"
    using len by (simp add: enumerate0_snd)
  then have d: "\<forall>x \<in> set ?xs. snd (snd x) < th"
    using dry by auto
  have ne: "?xs \<noteq> []" using l n by auto
  from seg_loop_all_dry [OF d ne] obtain cp' where
    r: "foldl (seg_step th) ([], None) ?xs = ([], Some cp')" and c: "dry_days cp' = length ?xs"
    by blast
  show ?thesis
    using n by (simp add: detect_drought_periods_def r c l dry_days_close_period)
qed

lemma detect_spec_example: "map dry_days (detect_drought_periods (series [1,2,3,4,5,6,7,8,9,10] [0,0,0,0,0,5,0,0,0,0]) 0.1) = [5, 4]"
  by (simp add: detect_drought_periods_def series_def enumerate0_def seg_step_def upt_rec close_period_def Let_def)

text \<open>
  C4. \<open>detect_drought_periods\<close> never emits a period with fewer than 3 dry days; and on
  a series of \<open>N \<ge> 3\<close> days that are all dry (precipitation below the threshold, 0.1 by
  default) it emits exactly one period, whose \<open>dry_days\<close> is \<open>N\<close>.
\<close>

theorem C4_min_three_days_and_all_dry_single_period:
  "(\<forall>p \<in> set (detect_drought_periods cd th). 3 \<le> dry_days p)
   \<and> (length (dates cd) = length (precipitation cd) \<and> 3 \<le> length (precipitation cd)
        \<and> (\<forall>x \<in> set (precipitation cd). x < th)
      \<longrightarrow> (\<exists>p. detect_drought_periods cd th = [p]
                \<and> dry_days p = length (precipitation cd)))"
  using detect_min_three [of cd th] detect_all_dry [of cd th] by blast

theorem C4_all_dry_witness:
  "length (dates (series [1,2,3,4] [0,0,0,0])) = length (precipitation (series [1,2,3,4] [0,0,0,0]))
   \<and> 3 \<le> length (precipitation (series [1,2,3,4] [0,0,0,0]))
   \<and> list_all (\<lambda>x. x < 0.1) (precipitation (series [1,2,3,4] [0,0,0,0]))
   \<and> (\<exists>p. detect_drought_periods (series [1,2,3,4] [0,0,0,0]) 0.1 = [p] \<and> dry_days p = 4)
   \<and> list_all (\<lambda>p. 3 \<le> dry_days p) (detect_drought_periods (series [1,2,3,4] [0,0,0,0]) 0.1)"
proof -
  have n: "length (precipitation (series [1,2,3,4] [0,0,0,0])) = 4"
    by (simp add: series_def)
  show ?thesis
    using C4_min_three_days_and_all_dry_single_period [of "series [1,2,3,4] [0,0,0,0]" "0.1"]
    unfolding n list_all_iff by (simp add: series_def)
qed

section \<open>Properties of the SPI table\<close>

lemma spi_long_loop:
  "foldl (spi_long_step fit period p) m [0..<n] i =
     (if i < n \<and> 7 \<le> length (spi_window period p i)
      then Some (spi_of_window fit (spi_window period p i)) else m i)"
proof (induction n)
  case 0
  then show ?case by simp
next
  case (Suc n)
  show ?case
    using Suc.IH by (auto simp: spi_long_step_def Let_def less_Suc_eq)
qed

lemma length_spi_window:
  assumes "i < length p" and "7 \<le> period"
  shows "7 \<le> length (spi_window period p i) \<longleftrightarrow> 6 \<le> i"
  using assms by (auto simp: spi_window_def min_def)

lemma calculate_spi_long:
  assumes "7 \<le> length p"
  shows "calculate_spi fit p period i =
     (if i < length p \<and> 7 \<le> length (spi_window period p i)
      then Some (spi_of_window fit (spi_window period p i)) else None)"
  using assms by (simp add: calculate_spi_def spi_long_loop)

lemma spi_simple_loop:
  "foldl (\<lambda>m (i, x). m(i \<mapsto> f x)) m0 (zip [k..<k + length xs] xs) i =
     (if k \<le> i \<and> i < k + length xs then Some (f (xs ! (i - k))) else m0 i)"
proof (induction xs arbitrary: k m0)
  case Nil
  then show ?case by auto
next
  case (Cons x xs)
  have "[k..<k + length (x # xs)] = k # [Suc k..<Suc k + length xs]"
    by (simp add: upt_rec)
  then show ?case
    using Cons.IH [of "m0(k \<mapsto> f x)" "Suc k"] by (auto simp: nth_Cons')
qed

lemma spi_simple_at:
  "spi_simple p i =
     (if i < length p
      then Some (let std = (if length p > 1 then np_std p else 1)
                 in if std > 0 then (p ! i - np_mean p) / std else 0)
      else None)"
  by (simp add: spi_simple_def enumerate0_def Let_def
      spi_simple_loop [where k = 0 and xs = p, simplified])

lemma calculate_spi_dom:
  assumes "7 \<le> length p" and "7 \<le> period"
  shows "dom (calculate_spi fit p period) = {6..<length p}"
proof (rule set_eqI)
  fix i
  show "i \<in> dom (calculate_spi fit p period) \<longleftrightarrow> i \<in> {6..<length p}"
    using assms length_spi_window [of i p period]
    by (auto simp: calculate_spi_long dom_def)
qed

text \<open>
  C2 as stated (an entry for every index of a series of length at least 7) fails: on a
  series of 7 points the loop skips the indices 0 to 5, whose windows are shorter than 7.
\<close>

theorem C2_every_index_counterexample: "\<not> (\<forall>fit p. 7 \<le> length p \<longrightarrow> (\<forall>i < length p. i \<in> dom (calculate_spi fit p 30)))"
proof
  assume a: "\<forall>fit p. 7 \<le> length p \<longrightarrow> (\<forall>i < length p. i \<in> dom (calculate_spi fit p 30))"
  let ?p = "[0,0,0,0,0,0,0] :: real list"
  have "7 \<le> length ?p" by simp
  with a have "\<forall>i < length ?p. i \<in> dom (calculate_spi fit_raises ?p 30)" by blast
  then have "0 \<in> dom (calculate_spi fit_raises ?p 30)" by simp
  moreover have "dom (calculate_spi fit_raises ?p 30) = {6..<length ?p}"
    by (rule calculate_spi_dom) simp_all
  ultimately have "(0::nat) \<in> {6..<length ?p}" by simp
  then show False by simp
qed

lemma sum_list_pos_member:
  fixes xs :: "real list"
  assumes "\<forall>x \<in> set xs. 0 \<le> x" and "y \<in> set xs" and "0 < y"
  shows "0 < sum_list xs"
proof -
  have "y \<le> sum_list xs"
    using assms(1,2) by (simp add: member_le_sum_list)
  then show ?thesis using assms(3) by simp
qed

lemma np_std_pos:
  assumes "i < length p" and "p ! i \<noteq> np_mean p"
  shows "0 < np_std p"
proof -
  let ?sq = "map (\<lambda>x. (x - np_mean p)\<^sup>2) p"
  have "(p ! i - np_mean p)\<^sup>2 \<in> set ?sq"
    using assms(1) by auto
  moreover have "0 < (p ! i - np_mean p)\<^sup>2"
    using assms(2) by simp
  moreover have "\<forall>x \<in> set ?sq. 0 \<le> x" by auto
  ultimately have "0 < sum_list ?sq" by (rule sum_list_pos_member [rotated])
  moreover have "0 < length p" using assms(1) by auto
  ultimately show ?thesis by (simp add: np_std_def np_mean_def [of ?sq])
qed





lemma fallback_example:
  "\<exists>v. calculate_spi fit_raises [10,10,10,10,10,10,0] 30 6 = Some v \<and> 0 < v
     \<and> [10,10,10,10,10,10,0::real] ! 6 < np_mean [10,10,10,10,10,10,0]"
proof -
  let ?p = "[10,10,10,10,10,10,0] :: real list"
  have w: "spi_window 30 ?p 6 = ?p" by (simp add: spi_window_def)
  have "?p ! 6 \<noteq> np_mean ?p" by (simp add: np_mean_def)
  then have sd: "0 < np_std ?p" by (intro np_std_pos [of 6]) simp_all
  have "calculate_spi fit_raises ?p 30 6 = Some (spi_of_window fit_raises ?p)"
    using w by (simp add: calculate_spi_long)
  moreover have "0 < spi_of_window fit_raises ?p"
    using sd by (simp add: spi_of_window_def fit_raises_def Let_def np_mean_def[of ?p])
  moreover have "?p ! 6 < np_mean ?p" by (simp add: np_mean_def)
  ultimately show ?thesis by blast
qed

text \<open>
  C2, amended. For a series of \<open>n \<ge> 7\<close> points (and a period of at least 7, 30 by
  default) the SPI dictionary has an entry for exactly the indices 6 to \<open>n - 1\<close>.
\<close>

theorem C2_entries_from_index_6:
  assumes "7 \<le> length p" and "7 \<le> period"
  shows "dom (calculate_spi fit p period) = {6..<length p}"
  using assms by (rule calculate_spi_dom)

theorem C2_entries_witness:
  "7 \<le> length [0,0,0,0,0,0,0,3::real] \<and> (7::nat) \<le> 30
   \<and> dom (calculate_spi fit_raises [0,0,0,0,0,0,0,3] 30) = {6, 7}"
proof -
  have "{6..<length [0,0,0,0,0,0,0,3::real]} = {6, 7}" by auto
  then show ?thesis
    using C2_entries_from_index_6 [of "[0,0,0,0,0,0,0,3]" 30 fit_raises] by simp
qed



section \<open>Properties of the group alerts\<close>

lemma analyse_sample_count:
  assumes "analyse_sample env period (gi, hrc, tot) loc = (gi', hrc', tot')"
    and "hrc = length (filter high_risk gi)"
  shows "hrc' = length (filter high_risk gi')"
  using assms
  by (auto simp: analyse_sample_def Let_def high_risk_def split: sum.splits option.splits if_splits)

lemma sample_loop_count:
  "foldl (analyse_sample env period) (gi, hrc, tot) locs = (gi', hrc', tot')
   \<Longrightarrow> hrc = length (filter high_risk gi)
   \<Longrightarrow> hrc' = length (filter high_risk gi')"
proof (induction locs arbitrary: gi hrc tot)
  case Nil
  then show ?case by auto
next
  case (Cons loc locs)
  obtain g1 h1 t1 where st: "analyse_sample env period (gi, hrc, tot) loc = (g1, h1, t1)"
    by (cases "analyse_sample env period (gi, hrc, tot) loc") auto
  have "h1 = length (filter high_risk g1)"
    using st Cons.prems(2) by (rule analyse_sample_count)
  moreover have "foldl (analyse_sample env period) (g1, h1, t1) locs = (gi', hrc', tot')"
    using Cons.prems(1) by (simp add: st)
  ultimately show ?case using Cons.IH by blast
qed

lemma group_level_all_high: "group_level 1 avg = TresEleve"
  by (simp add: group_level_def)

lemma all_high_gives_tres_eleve:
  assumes some: "generate_group_alert env name locs period gtype = Some a"
    and high: "\<forall>s \<in> set (indicateurs_echantillon a). high_risk s"
  shows "niveau_risque_groupe a = TresEleve"
proof -
  let ?smp = "df_sample env (min 3 (length locs)) locs"
  obtain gi hrc tot where
    loop: "foldl (analyse_sample env period) ([], 0, 0) ?smp = (gi, hrc, tot)"
    by (cases "foldl (analyse_sample env period) ([], 0, 0) ?smp") auto
  have cnt: "hrc = length (filter high_risk gi)"
    using loop by (rule sample_loop_count) simp
  from some have ne: "gi \<noteq> []"
    by (auto simp: generate_group_alert_def Let_def loop split: if_splits)
  from some ne have gi: "indicateurs_echantillon a = gi"
    and lvl: "niveau_risque_groupe a =
                group_level (real hrc / real (length gi)) (real_of_int tot / real (length gi))"
    by (auto simp: generate_group_alert_def Let_def loop)
  have "filter high_risk gi = gi"
    using high gi by simp
  then have h: "hrc = length gi" using cnt by simp
  have "real (length gi) / real (length gi) = 1" using ne by simp
  then show ?thesis unfolding lvl h by (simp only: group_level_all_high)
qed

lemma analyse_sample_fail:
  "\<not> sample_succeeds env period loc \<Longrightarrow> analyse_sample env period st loc = st"
  by (cases st) (auto simp: analyse_sample_def sample_succeeds_def split: sum.splits option.splits)

lemma sample_loop_all_fail:
  "\<forall>loc \<in> set locs. \<not> sample_succeeds env period loc
   \<Longrightarrow> foldl (analyse_sample env period) st locs = st"
  by (induction locs arbitrary: st) (simp_all add: analyse_sample_fail)

lemma generate_group_alert_none:
  assumes "\<forall>loc \<in> set (df_sample env (min 3 (length members)) members).
             \<not> sample_succeeds env period loc"
  shows "generate_group_alert env name members period gtype = None"
  using sample_loop_all_fail [OF assms, of "([], 0, 0)"]
  by (simp add: generate_group_alert_def Let_def)

lemma generate_group_alert_name:
  "generate_group_alert env name members period gtype = Some a \<Longrightarrow> groupe_nom a = name"
  by (auto simp: generate_group_alert_def Let_def split: prod.splits if_splits)

lemma alerts_loop_origin:
  "a \<in> set (foldl (alerts_step env period gb) acc groups)
   \<Longrightarrow> a \<in> set acc
       \<or> (\<exists>g \<in> set groups. generate_group_alert env (fst g) (snd g) period gb = Some a)"
proof (induction groups arbitrary: acc)
  case Nil
  then show ?case by simp
next
  case (Cons g groups)
  from Cons.prems have "a \<in> set (foldl (alerts_step env period gb)
                          (alerts_step env period gb acc g) groups)" by simp
  from Cons.IH [OF this] show ?case
    by (auto simp: alerts_step_def split: option.splits)
qed

lemma groupby_members:
  "(k, m) \<in> set (groupby key df) \<Longrightarrow> m = filter (\<lambda>l. key l = k) df"
  by (auto simp: groupby_def)

lemma alerts_loop_omits:
  assumes grp: "(name, members) \<in> set (groupby key df)"
    and none: "generate_group_alert env name members period gb = None"
  shows "\<forall>a \<in> set (foldl (alerts_step env period gb) [] (groupby key df)). groupe_nom a \<noteq> name"
proof
  fix a
  assume "a \<in> set (foldl (alerts_step env period gb) [] (groupby key df))"
  from alerts_loop_origin [OF this] obtain g where
    g: "g \<in> set (groupby key df)"
    and a: "generate_group_alert env (fst g) (snd g) period gb = Some a"
    by auto
  show "groupe_nom a \<noteq> name"
  proof
    assume eq: "groupe_nom a = name"
    have "fst g = name"
      using generate_group_alert_name [OF a] eq by simp
    moreover have "snd g = filter (\<lambda>l. key l = fst g) df"
      using g groupby_members [of "fst g" "snd g" key df] by simp
    moreover have "members = filter (\<lambda>l. key l = name) df"
      using grp by (rule groupby_members)
    ultimately have "generate_group_alert env name members period gb = Some a"
      using a by simp
    then show False using none by simp
  qed
qed

lemma zero_sample_group:
  assumes grp: "group_by = ''region'' \<and> (name, members) \<in> set (groupby region df)
              \<or> group_by = ''zone'' \<and> (name, members) \<in> set (groupby zone df)"
    and fail: "\<forall>loc \<in> set (df_sample env (min 3 (length members)) members).
                 \<not> sample_succeeds env period loc"
  shows "generate_group_alert env name members period group_by = None
       \<and> (\<exists>alerts. generate_alerts_by_group env df period group_by = Inr alerts
             \<and> (\<forall>a \<in> set alerts. groupe_nom a \<noteq> name))"
proof -
  have none: "generate_group_alert env name members period group_by = None"
    using fail by (rule generate_group_alert_none)
  from grp show ?thesis
  proof
    assume r: "group_by = ''region'' \<and> (name, members) \<in> set (groupby region df)"
    then show ?thesis
      using none alerts_loop_omits [of name members region df env period group_by]
      by (simp add: generate_alerts_by_group_def)
  next
    assume z: "group_by = ''zone'' \<and> (name, members) \<in> set (groupby zone df)"
    then show ?thesis
      using none alerts_loop_omits [of name members zone df env period group_by]
      by (simp add: generate_alerts_by_group_def)
  qed
qed

text \<open>Evaluation on the concrete inputs.\<close>

lemma spi_dry:
  "spi_values_list (calculate_spi fit [0, 0, 0] 30) (Suc (Suc (Suc 0))) = [0, 0, 0]"
  by (simp add: calculate_spi_def spi_simple_at spi_values_list_def upt_rec np_std_def np_mean_def)

lemma dry_scalars:
  "scalars (calculate_drought_indicators fit (Some dry_spell_data)) =
     [''spi_mean'' \<mapsto> 0, ''precipitation_deficit'' \<mapsto> 100,
      ''consecutive_dry_days'' \<mapsto> 3, ''avg_temperature'' \<mapsto> 30,
      ''max_temperature'' \<mapsto> 40, ''heat_stress'' \<mapsto> 100,
      ''soil_moisture_mean'' \<mapsto> 10, ''soil_moisture_min'' \<mapsto> 10,
      ''et0_mean'' \<mapsto> 5, ''water_balance'' \<mapsto> - 15, ''humidity_mean'' \<mapsto> 50]"
  by (simp add: calculate_drought_indicators_def dry_spell_data_def Let_def spi_dry
      np_mean_def calculate_normal_precipitation_def
      calculate_consecutive_dry_days_def calculate_heat_stress_def)

lemma dry_assess:
  "risk_score (assess_drought_risk (calculate_drought_indicators fit (Some dry_spell_data))) = 55"
  "risk_level (assess_drought_risk (calculate_drought_indicators fit (Some dry_spell_data))) = Eleve"
proof -
  show s: "risk_score (assess_drought_risk
             (calculate_drought_indicators fit (Some dry_spell_data))) = 55"
    by (simp add: risk_score_eq ind_get_def dry_scalars spi_points_def deficit_points_def
        dry_days_points_def heat_points_def soil_points_def)
  show "risk_level (assess_drought_risk
          (calculate_drought_indicators fit (Some dry_spell_data))) = Eleve"
    by (simp add: risk_level_eq s classify_def)
qed

lemma garoua_sample:
  "analyse_sample test_env period ([], 0, 0) garoua =
     ([\<lparr> si_localite = ''Garoua'', si_risk_level = Eleve, si_risk_score = 55,
          si_spi = 0, si_deficit = 100, si_dry_days = 3 \<rparr>], 1, 55)"
  by (simp add: analyse_sample_def test_env_def garoua_def Let_def dry_assess ind_get_def
      dry_scalars)

lemma kribi_fails: "\<not> sample_succeeds test_env period kribi"
  by (simp add: sample_succeeds_def test_env_def kribi_def)


lemma sort_two: "sort [''Sud'', ''Nord''] = [''Nord'', ''Sud'']"
  by code_simp

lemma groupby_two: "groupby region [kribi, garoua] = [(''Nord'', [garoua]), (''Sud'', [kribi])]"
proof -
  have k: "map region [kribi, garoua] = [''Sud'', ''Nord'']"
    by (simp add: kribi_def garoua_def)
  have r: "remdups [''Sud'', ''Nord''] = [''Sud'', ''Nord'']" by simp
  have f: "filter (\<lambda>l. region l = ''Nord'') [kribi, garoua] = [garoua]"
    "filter (\<lambda>l. region l = ''Sud'') [kribi, garoua] = [kribi]"
    by (simp_all add: kribi_def garoua_def)
  show ?thesis
    unfolding groupby_def k r sort_two using f by simp
qed

lemma nord_alert:
  "\<exists>a. generate_group_alert test_env ''Nord'' [garoua] ''30 jours'' ''region'' = Some a
       \<and> indicateurs_echantillon a =
           [\<lparr> si_localite = ''Garoua'', si_risk_level = Eleve, si_risk_score = 55,
               si_spi = 0, si_deficit = 100, si_dry_days = 3 \<rparr>]
       \<and> score_risque_moyen a = 55"
proof -
  have s: "df_sample test_env (min 3 (length [garoua])) [garoua] = [garoua]"
    by (simp add: test_env_def)
  show ?thesis
    unfolding generate_group_alert_def Let_def s
    by (simp add: garoua_sample)
qed

lemma sud_group_fails:
  "\<forall>loc \<in> set (df_sample test_env (min 3 (length [kribi])) [kribi]).
     \<not> sample_succeeds test_env period loc"
proof -
  have "df_sample test_env (min 3 (length [kribi])) [kribi] = [kribi]"
    by (simp add: test_env_def)
  then show ?thesis by (simp add: kribi_fails)
qed

lemma two_groups_one_alert:
  "\<exists>alerts. generate_alerts_by_group test_env [kribi, garoua] ''30 jours'' ''region'' = Inr alerts
     \<and> map groupe_nom alerts = [''Nord'']"
proof -
  obtain a where a: "generate_group_alert test_env ''Nord'' [garoua] ''30 jours'' ''region'' = Some a"
    using nord_alert by blast
  have n: "generate_group_alert test_env ''Sud'' [kribi] ''30 jours'' ''region'' = None"
    using sud_group_fails by (rule generate_group_alert_none)
  have "groupe_nom a = ''Nord''"
    using a by (rule generate_group_alert_name)
  then show ?thesis
    by (simp add: generate_alerts_by_group_def groupby_two alerts_step_def a n)
qed

text \<open>
  C6. When every successfully analysed sample of a group (there is at least one, since
  an alert is returned) has the level \<open>Eleve\<close> or \<open>Tres Eleve\<close>, the group level
  returned by \<open>generate_group_alert\<close> is \<open>Tres Eleve\<close>, whatever the average score.
\<close>

theorem C6_all_samples_high_gives_tres_eleve:
  assumes "generate_group_alert env name locs period gtype = Some a"
    and "\<forall>s \<in> set (indicateurs_echantillon a). high_risk s"
  shows "indicateurs_echantillon a \<noteq> [] \<and> ratio_risque_eleve a = 1
       \<and> niveau_risque_groupe a = TresEleve"
proof -
  have lvl: "niveau_risque_groupe a = TresEleve"
    using assms by (rule all_high_gives_tres_eleve)
  let ?smp = "df_sample env (min 3 (length locs)) locs"
  obtain gi hrc tot where
    loop: "foldl (analyse_sample env period) ([], 0, 0) ?smp = (gi, hrc, tot)"
    by (cases "foldl (analyse_sample env period) ([], 0, 0) ?smp") auto
  have cnt: "hrc = length (filter high_risk gi)"
    using loop by (rule sample_loop_count) simp
  from assms(1) have ne: "gi \<noteq> []"
    by (auto simp: generate_group_alert_def Let_def loop split: if_splits)
  from assms(1) ne have gi: "indicateurs_echantillon a = gi"
    and ratio: "ratio_risque_eleve a = real hrc / real (length gi)"
    by (auto simp: generate_group_alert_def Let_def loop)
  have "filter high_risk gi = gi" using assms(2) gi by simp
  then have h: "hrc = length gi" using cnt by simp
  have "real (length gi) / real (length gi) = 1" using ne by simp
  then have "ratio_risque_eleve a = 1" unfolding ratio h .
  then show ?thesis using lvl gi ne by simp
qed

theorem C6_all_samples_high_witness:
  "\<exists>a. generate_group_alert test_env ''Nord'' [garoua] ''30 jours'' ''region'' = Some a
       \<and> (\<forall>s \<in> set (indicateurs_echantillon a). high_risk s)
       \<and> score_risque_moyen a = 55
       \<and> niveau_risque_groupe a = TresEleve"
proof -
  obtain a where a: "generate_group_alert test_env ''Nord'' [garoua] ''30 jours'' ''region'' = Some a"
    and i: "indicateurs_echantillon a =
              [\<lparr> si_localite = ''Garoua'', si_risk_level = Eleve, si_risk_score = 55,
                  si_spi = 0, si_deficit = 100, si_dry_days = 3 \<rparr>]"
    and s: "score_risque_moyen a = 55"
    using nord_alert by blast
  have h: "\<forall>s \<in> set (indicateurs_echantillon a). high_risk s"
    by (simp add: i high_risk_def)
  show ?thesis
    using a h s C6_all_samples_high_gives_tres_eleve [OF a h] by blast
qed

text \<open>
  C7. A group none of whose sampled localities is analysed gets no alert:
  \<open>generate_group_alert\<close> returns \<open>None\<close>, and \<open>generate_alerts_by_group\<close> (grouping by
  region or by zone) returns normally a list in which no entry carries the group's name.
\<close>

theorem C7_zero_sample_group_omitted:
  assumes "group_by = ''region'' \<and> (name, members) \<in> set (groupby region df)
         \<or> group_by = ''zone'' \<and> (name, members) \<in> set (groupby zone df)"
    and "\<forall>loc \<in> set (df_sample env (min 3 (length members)) members).
           \<not> sample_succeeds env period loc"
  shows "generate_group_alert env name members period group_by = None
       \<and> (\<exists>alerts. generate_alerts_by_group env df period group_by = Inr alerts
             \<and> (\<forall>a \<in> set alerts. groupe_nom a \<noteq> name))"
  using assms by (rule zero_sample_group)

theorem C7_zero_sample_group_witness:
  "(''Sud'', [kribi]) \<in> set (groupby region [kribi, garoua])
   \<and> list_all (\<lambda>loc. \<not> sample_succeeds test_env ''30 jours'' loc)
        (df_sample test_env (min 3 (length [kribi])) [kribi])
   \<and> generate_group_alert test_env ''Sud'' [kribi] ''30 jours'' ''region'' = None
   \<and> (\<exists>alerts. generate_alerts_by_group test_env [kribi, garoua] ''30 jours'' ''region''
                  = Inr alerts
         \<and> list_all (\<lambda>a. groupe_nom a \<noteq> ''Sud'') alerts)"
proof -
  have g: "''region'' = ''region'' \<and> (''Sud'', [kribi]) \<in> set (groupby region [kribi, garoua])
         \<or> ''region'' = ''zone'' \<and> (''Sud'', [kribi]) \<in> set (groupby zone [kribi, garoua])"
    by (simp add: groupby_two)
  have f: "\<forall>loc \<in> set (df_sample test_env (min 3 (length [kribi])) [kribi]).
             \<not> sample_succeeds test_env ''30 jours'' loc"
    by (rule sud_group_fails)
  show ?thesis
    using g f C7_zero_sample_group_omitted [OF g f] unfolding list_all_iff by blast
qed

section \<open>The fallback alert text and its parser\<close>

lemma split_char_not_Nil: "split_char c s \<noteq> []"
  by (induction s) (auto split: list.splits)

lemma split_char_no_sep: "c \<notin> set s \<Longrightarrow> split_char c s = [s]"
  by (induction s) auto

lemma split_char_append: "split_char c (a @ c # b) = split_char c a @ split_char c b"
proof (induction a)
  case Nil
  show ?case by simp
next
  case (Cons x a)
  obtain p ps where sp: "split_char c a = p # ps"
    using split_char_not_Nil [of c a] by (cases "split_char c a") auto
  show ?case using Cons.IH by (simp add: sp)
qed

lemma split_char_join:
  assumes "\<forall>l \<in> set ls. c \<notin> set l" and "ls \<noteq> []"
  shows "split_char c (join [c] ls) = ls"
  using assms
proof (induction "[c]" ls rule: join.induct)
  case 1
  then show ?case by simp
next
  case (2 x)
  then show ?case by (simp add: split_char_no_sep)
next
  case (3 x y ys)
  then show ?case by (simp add: split_char_append split_char_no_sep)
qed

lemma parse_line_indented:
  assumes "line = [] \<or> hd line = CHR '' ''"
  shows "parse_line parsed line = parsed"
proof (cases line)
  case Nil
  then show ?thesis by (simp add: parse_line_def startswith_def)
next
  case (Cons c cs)
  with assms have "c = CHR '' ''" by simp
  then show ?thesis by (simp add: parse_line_def startswith_def Cons)
qed

lemma parse_lines_indented:
  "\<forall>line \<in> set ls. line = [] \<or> hd line = CHR '' '' \<Longrightarrow> foldl parse_line parsed ls = parsed"
  by (induction ls) (simp_all add: parse_line_indented)

lemma digit_char_not_newline: "d < 10 \<Longrightarrow> digit_char d \<noteq> newline"
proof -
  assume "d < 10"
  then have "digit_char d \<in> set ''0123456789''"
    unfolding digit_char_def by (intro nth_mem) simp
  then show ?thesis by auto
qed

lemma show_nat_no_newline: "newline \<notin> set (show_nat n)"
proof (induction n rule: show_nat.induct)
  case (1 n)
  show ?case
  proof (cases "n < 10")
    case True
    then show ?thesis
      using digit_char_not_newline [of n] by (subst show_nat.simps) simp
  next
    case False
    then show ?thesis
      using 1 digit_char_not_newline [of "n mod 10"] by (subst show_nat.simps) simp
  qed
qed

lemma format_1f_no_newline: "newline \<notin> set (format_1f x)"
  by (simp add: format_1f_def Let_def show_nat_no_newline)

lemma template_no_newline:
  assumes "newline \<notin> set group_name" and "newline \<notin> set group_type"
  shows "newline \<notin> set (t_titre (risk_templates_get group_name group_type avg lvl))"
    and "newline \<notin> set (t_evaluation (risk_templates_get group_name group_type avg lvl))"
    and "newline \<notin> set (join ''; '' (t_zones_prioritaires
            (risk_templates_get group_name group_type avg lvl)))"
    and "newline \<notin> set (join ''; '' (t_actions (risk_templates_get group_name group_type avg lvl)))"
    and "newline \<notin> set (t_periode (risk_templates_get group_name group_type avg lvl))"
    and "newline \<notin> set (t_urgence (risk_templates_get group_name group_type avg lvl))"
  using assms
  by (cases lvl; simp add: risk_templates_get_def format_1f_no_newline)+

text \<open>
  Whatever the level, the score and the samples, and for every group name and type
  without a line break, the parser recovers no field from the fallback text.
\<close>

lemma parse_fallback_always_empty:
  assumes "newline \<notin> set group_name" and "newline \<notin> set group_type"
  shows "parse_group_alert_message
           (generate_fallback_group_alert group_name group_type lvl avg inds)
         = empty_parsed_alert"
proof -
  let ?T = "risk_templates_get group_name group_type avg lvl"
  let ?ls = "[[],
     ''        TITRE_GROUPE: '' @ t_titre ?T,
     ''        '' @ [E_acute] @ ''VALUATION: '' @ t_evaluation ?T
        @ '' Bas'' @ [e_acute] @ '' sur l'' @ [apostrophe] @ ''analyse de ''
        @ show_nat (length inds)
        @ '' localit'' @ [e_acute] @ ''s '' @ [e_acute] @ ''chantillons.'',
     ''        ZONES_PRIORITAIRES: '' @ join ''; '' (t_zones_prioritaires ?T),
     ''        ACTIONS_COORDONN'' @ [E_acute] @ ''ES: '' @ join ''; '' (t_actions ?T),
     ''        P'' @ [E_acute] @ ''RIODE: '' @ t_periode ?T,
     ''        URGENCE: '' @ t_urgence ?T,
     ''        '']"
  have gen: "generate_fallback_group_alert group_name group_type lvl avg inds
              = join [newline] ?ls"
    by (simp add: generate_fallback_group_alert_def Let_def)
  have nonl: "\<forall>l \<in> set ?ls. newline \<notin> set l"
    using template_no_newline [OF assms, of avg lvl] by (simp add: show_nat_no_newline)
  have lines: "split_char newline (join [newline] ?ls) = ?ls"
    using nonl by (intro split_char_join) simp_all
  have ind: "\<forall>line \<in> set ?ls. line = [] \<or> hd line = CHR '' ''"
    by simp
  show ?thesis
    unfolding parse_group_alert_message_def gen lines
    using ind by (rule parse_lines_indented)
qed

lemma parse_fallback_example:
  "parse_group_alert_message
     (generate_fallback_group_alert ''Nord'' ''region'' lvl 75 three_samples)
   = empty_parsed_alert"
  by (rule parse_fallback_always_empty) simp_all

lemma fallback_text_example:
  "generate_fallback_group_alert ''Nord'' ''region'' Modere 42.5 three_samples
   = [newline] @ ''        TITRE_GROUPE: VIGILANCE - region Nord''
     @ [newline] @ ''        '' @ [E_acute] @ ''VALUATION: Situation sous surveillance (42.5%).''
     @ '' Bas'' @ [e_acute] @ '' sur l'' @ [apostrophe] @ ''analyse de 3 localit'' @ [e_acute]
     @ ''s '' @ [e_acute] @ ''chantillons.''
     @ [newline] @ ''        ZONES_PRIORITAIRES: Points chauds identifi'' @ [e_acute] @ ''s''
     @ [newline] @ ''        ACTIONS_COORDONN'' @ [E_acute] @ ''ES: Monitoring continu; Pr''
     @ [e_acute] @ ''paration des plans''
     @ [newline] @ ''        P'' @ [E_acute] @ ''RIODE: 1-2 mois''
     @ [newline] @ ''        URGENCE: MOD'' @ [E_acute] @ ''R'' @ [E_acute] @ ''E''
     @ [newline] @ ''        ''"
  by (simp add: generate_fallback_group_alert_def risk_templates_get_def Let_def
      format_1f_def show_nat.simps digit_char_def three_samples_def)

text \<open>The same parser on lines that start at the tag recovers the fields.\<close>

lemma parse_unindented_example:
  "parse_group_alert_message (''TITRE_GROUPE: CRISE - region Nord'' @ [newline]
      @ ''URGENCE: CRITIQUE'')
   = empty_parsed_alert\<lparr> titre_groupe := Some ''CRISE - region Nord'',
                          urgence := Some ''CRITIQUE'' \<rparr>"
  by (simp add: parse_group_alert_message_def parse_line_def startswith_def strip_def
      is_space_def empty_parsed_alert_def)

text \<open>
  C1. The round trip asks that parsing the fallback text recovers the six tagged fields,
  none empty, for every risk level. Evaluated on the group \<open>Nord\<close> of type \<open>region\<close>
  with average score 75 and three samples, the parser returns the empty dictionary for
  every level: each line of the text starts with the indentation of the f-string, so no
  line starts with a tag.
\<close>

theorem C1_fallback_round_trip_recovers_nothing:
  "parse_group_alert_message
     (generate_fallback_group_alert ''Nord'' ''region'' lvl 75 three_samples)
   = empty_parsed_alert
   \<and> \<not> all_fields_recovered (parse_group_alert_message
           (generate_fallback_group_alert ''Nord'' ''region'' lvl 75 three_samples))"
  by (simp add: parse_fallback_example all_fields_recovered_def empty_parsed_alert_def)

section \<open>Properties of the flood risk calculation\<close>

lemma determine_alert_level_ok:
  "\<exists>lvl d. determine_alert_level risk precip = Inr (lvl, d) \<and> map_of ALERT_LEVELS lvl = Some d"
  by (simp add: determine_alert_level_def Let_def ALERT_LEVELS_def)

lemma inconnu_not_a_level: "map_of ALERT_LEVELS ''Inconnu'' = None"
  by (simp add: ALERT_LEVELS_def)

lemma calculate_risk_cases:
  "(\<exists>e. calculate_risk_try w l = Inl e \<and> calculate_risk w l = (''Inconnu'', 0, None))
   \<or> (\<exists>lvl score d. calculate_risk_try w l = Inr (lvl, score, Some d)
         \<and> calculate_risk w l = (lvl, score, Some d)
         \<and> map_of ALERT_LEVELS lvl = Some (alert_details d))"
proof (cases "calculate_risk_try w l")
  case (Inl e)
  then show ?thesis by (simp add: calculate_risk_def)
next
  case (Inr r)
  obtain lvl score d where r: "r = (lvl, score, d)" by (cases r)
  from Inr r obtain risk precip det where
    "determine_alert_level risk precip = Inr (lvl, det)" and "\<exists>fd. d = Some fd \<and> alert_details fd = det"
    by (auto simp: calculate_risk_try_def Let_def split: sum.splits prod.splits)
  moreover from determine_alert_level_ok [of risk precip] calculation(1)
  have "map_of ALERT_LEVELS lvl = Some det" by auto
  ultimately show ?thesis using Inr r by (auto simp: calculate_risk_def)
qed

lemma calculate_risk_empty_soil_list:
  "calculate_risk (get_fallback_data\<lparr> w_soil_moisture := Some [] \<rparr>) douala = (''Inconnu'', 0, None)"
  by (simp add: calculate_risk_def calculate_risk_try_def get_fallback_data_def Let_def
      numbers_def calculate_soil_saturation_def)

lemma calculate_risk_null_precipitation:
  "calculate_risk (get_fallback_data\<lparr> hourly := Some \<lparr> h_precipitation = Some [Some 1, None],
      h_temperature_2m = None, h_relative_humidity_2m = None \<rparr> \<rparr>) douala = (''Inconnu'', 0, None)"
  by (simp add: calculate_risk_def calculate_risk_try_def get_fallback_data_def Let_def
      numbers_def)

lemma calculate_risk_fallback_data:
  "fst (calculate_risk get_fallback_data douala) = ''Vigilance''"
  by (simp add: calculate_risk_def calculate_risk_try_def get_fallback_data_def Let_def
      numbers_def calculate_soil_saturation_def determine_alert_level_def py_max0_def
      intensity_hourly_def ALERT_LEVELS_def split: sum.splits)

lemma calculate_risk_try_empty_soil_list:
  "calculate_risk_try (get_fallback_data\<lparr> w_soil_moisture := Some [] \<rparr>) douala = Inl IndexError"
  by (simp add: calculate_risk_try_def get_fallback_data_def Let_def numbers_def
      calculate_soil_saturation_def)

text \<open>
  C10. \<open>calculate_risk\<close> returns a triple on every input; whenever its body raises, the
  triple is \<open>('Inconnu', 0.0, {})\<close>, and \<open>Inconnu\<close> is not a key of \<open>ALERT_LEVELS\<close>
  (Vigilance, Pre-alerte, Alerte, Alerte Maximale).
\<close>

theorem C10_calculate_risk_failure_value:
  "(\<exists>lvl score d. calculate_risk w l = (lvl, score, d))
   \<and> (\<forall>e. calculate_risk_try w l = Inl e \<longrightarrow> calculate_risk w l = (''Inconnu'', 0, None))
   \<and> map_of ALERT_LEVELS ''Inconnu'' = None
   \<and> ''Inconnu'' \<notin> set (map fst ALERT_LEVELS)"
proof -
  have "\<exists>lvl score d. calculate_risk w l = (lvl, score, d)"
    by (cases "calculate_risk w l") auto
  moreover have "\<forall>e. calculate_risk_try w l = Inl e \<longrightarrow>
                   calculate_risk w l = (''Inconnu'', 0, None)"
    by (simp add: calculate_risk_def)
  moreover have "''Inconnu'' \<notin> set (map fst ALERT_LEVELS)"
    by (simp add: ALERT_LEVELS_def)
  ultimately show ?thesis using inconnu_not_a_level by blast
qed

theorem C10_calculate_risk_failure_witness:
  "calculate_risk_try (get_fallback_data\<lparr> w_soil_moisture := Some [] \<rparr>) douala
     = Inl IndexError
   \<and> calculate_risk (get_fallback_data\<lparr> w_soil_moisture := Some [] \<rparr>) douala
     = (''Inconnu'', 0, None)"
  using C10_calculate_risk_failure_value
          [of "get_fallback_data\<lparr> w_soil_moisture := Some [] \<rparr>" douala]
        calculate_risk_try_empty_soil_list
  by simp

section \<open>Properties of the forecast generators\<close>

lemma get_30day_forecast_state_free:
  "fst (get_30day_forecast rng g1 ds lat lon) = fst (get_30day_forecast rng g2 ds lat lon)"
  by (simp add: get_30day_forecast_def Let_def split: sum.splits prod.splits)

lemma get_longterm_forecast_state_free:
  "fst (get_longterm_forecast rng g1 ds lat lon years)
   = fst (get_longterm_forecast rng g2 ds lat lon years)"
  by (simp add: get_longterm_forecast_def Let_def split: sum.splits prod.splits)







lemma counter_rng_simps:
  "rng_seed counter_rng s = s"
  "draw_normal counter_rng loc scale g = (loc + scale * real (g mod 3), g + 1)"
  "draw_exponential counter_rng scale g = (scale * real (g mod 5), g + 1)"
  "draw_binomial counter_rng k p g = (if even g then 1 else 0, g + 1)"
  by (simp_all add: counter_rng_def)

lemma seed_from_location_example: "seed_from_location counter_rng 4 9.5 = Inr 409"
  by (simp add: seed_from_location_def py_int_def counter_rng_simps Let_def)










text \<open>
  Under the toy generator, a third day changes the values as well as the length: the
  draws of the later series start further down the stream.
\<close>

lemma get_30day_forecast_two_and_three_days:
  "map_sum id random_series (fst (get_30day_forecast counter_rng g (daily_index 2) 4 9.5))
     = Inr ([29.5, 31.5], Some [21.5, 23.5], [0, 20], Some [4, 5])"
  "map_sum id random_series (fst (get_30day_forecast counter_rng g (daily_index 3) 4 9.5))
     = Inr ([29.5, 31.5, 27.5], Some [23.5, 25.5, 21.5], [0, 0, 10], Some [5, 6, 4])"
  unfolding get_30day_forecast_def seed_from_location_example
  by (simp_all add: Let_def random_normal_def random_exponential_def random_binomial_def
      linspace_def counter_rng_simps random_series_def upt_rec daily_index_def)





end
